theory Spec2Isabelle
  imports Complex_Main "HOL-Library.AList" "HOL-Library.Sublist"
begin

section \<open>Python values\<close>

text \<open>
  A Python \<^verbatim>\<open>str\<close> is a sequence of Unicode code points: \<^verbatim>\<open>len\<close> counts code points and
  slicing cuts between them. It is modelled as a list of code points, so that \<open>length\<close>,
  \<open>take\<close> and \<open>drop\<close> are \<^verbatim>\<open>len\<close> and slicing. ASCII literals of the source are written
  with \<open>ustr\<close>; the Chinese literals are written out as their code points.
\<close>

type_synonym pystr = "nat list"

definition ustr :: "string \<Rightarrow> pystr" where
  "ustr s = map of_char s"

text \<open>\<^verbatim>\<open>str.isspace\<close> for one code point, and \<^verbatim>\<open>str.strip()\<close> with no argument.\<close>

definition py_isspace :: "nat \<Rightarrow> bool" where
  "py_isspace c \<longleftrightarrow>
     (9 \<le> c \<and> c \<le> 13) \<or> (28 \<le> c \<and> c \<le> 32) \<or> c = 133 \<or> c = 160 \<or> c = 5760 \<or>
     (8192 \<le> c \<and> c \<le> 8202) \<or> c = 8232 \<or> c = 8233 \<or> c = 8239 \<or> c = 8287 \<or> c = 12288"

definition strip :: "pystr \<Rightarrow> pystr" where
  "strip s = rev (dropWhile py_isspace (rev (dropWhile py_isspace s)))"

text \<open>
  The values that travel as \<^verbatim>\<open>Any\<close>: what \<^verbatim>\<open>json.loads\<close> produces and what a tool call carries
  as its arguments. A \<^verbatim>\<open>dict\<close> is an association list in insertion order.
\<close>

datatype pyval =
    PyNone
  | PyBool bool
  | PyInt int
  | PyFloat real
  | PyStr pystr
  | PyList "pyval list"
  | PyDict "(pystr \<times> pyval) list"

type_synonym pydict = "(pystr \<times> pyval) list"

text \<open>Truth value of an object, as \<^verbatim>\<open>not x\<close>, \<^verbatim>\<open>x or y\<close> and \<^verbatim>\<open>if x:\<close> test it.\<close>

fun truthy :: "pyval \<Rightarrow> bool" where
  "truthy PyNone = False"
| "truthy (PyBool b) = b"
| "truthy (PyInt i) = (i \<noteq> 0)"
| "truthy (PyFloat x) = (x \<noteq> 0)"
| "truthy (PyStr s) = (s \<noteq> [])"
| "truthy (PyList xs) = (xs \<noteq> [])"
| "truthy (PyDict d) = (d \<noteq> [])"

text \<open>\<^verbatim>\<open>d.get(k, default)\<close>.\<close>

definition dict_get :: "pydict \<Rightarrow> pystr \<Rightarrow> pyval \<Rightarrow> pyval" where
  "dict_get d k dflt = (case map_of d k of None \<Rightarrow> dflt | Some v \<Rightarrow> v)"

text \<open>Exceptions are values; each carries the text \<^verbatim>\<open>str(e)\<close> gives.\<close>

datatype exn = TypeError pystr | KeyError pystr | UnicodeEncodeError pystr | Exception pystr

fun str_exn :: "exn \<Rightarrow> pystr" where
  "str_exn (TypeError m) = m"
| "str_exn (KeyError m) = m"
| "str_exn (UnicodeEncodeError m) = m"
| "str_exn (Exception m) = m"

text \<open>\<^verbatim>\<open>len(x)\<close>: defined on strings, lists and dicts, a \<^verbatim>\<open>TypeError\<close> on the other values.\<close>

fun py_len :: "pyval \<Rightarrow> exn + nat" where
  "py_len (PyStr s) = Inr (length s)"
| "py_len (PyList xs) = Inr (length xs)"
| "py_len (PyDict d) = Inr (length d)"
| "py_len PyNone = Inl (TypeError (ustr ''object of type 'NoneType' has no len()''))"
| "py_len (PyBool b) = Inl (TypeError (ustr ''object of type 'bool' has no len()''))"
| "py_len (PyInt i) = Inl (TypeError (ustr ''object of type 'int' has no len()''))"
| "py_len (PyFloat x) = Inl (TypeError (ustr ''object of type 'float' has no len()''))"

text \<open>
  \<^verbatim>\<open>x[:n]\<close> for \<open>n \<ge> 0\<close>: a prefix of a string or a list; a dict cannot be sliced (the
  interpreter raises \<^verbatim>\<open>TypeError: unhashable type: 'slice'\<close>, a \<^verbatim>\<open>KeyError\<close> from Python 3.12
  on), and the other values are not subscriptable.
\<close>

fun py_slice_to :: "pyval \<Rightarrow> nat \<Rightarrow> exn + pyval" where
  "py_slice_to (PyStr s) n = Inr (PyStr (take n s))"
| "py_slice_to (PyList xs) n = Inr (PyList (take n xs))"
| "py_slice_to (PyDict d) n = Inl (TypeError (ustr ''unhashable type: 'slice'' @ [39]))"
| "py_slice_to v n = Inl (TypeError (ustr ''object is not subscriptable''))"

section \<open>The runtime and the configuration\<close>

text \<open>
  What the program calls and does not define is a parameter of the model: the \<^verbatim>\<open>json\<close>
  module, \<^verbatim>\<open>repr\<close> (which \<^verbatim>\<open>str\<close> and f-strings use on a value that is not a string) and
  \<^verbatim>\<open>subprocess.run\<close>. \<open>json_loads\<close> gives \<open>None\<close> where \<^verbatim>\<open>json.loads\<close> raises;
  \<open>json_dumps\<close> takes \<^verbatim>\<open>ensure_ascii\<close> and \<^verbatim>\<open>indent\<close>. The outcome of the child process is
  its completion, the \<^verbatim>\<open>TimeoutExpired\<close> exception or any other exception.
\<close>

datatype completed =
    CompletedProcess int pystr pystr
  | TimeoutExpired
  | RunFailed exn

record runtime =
  json_loads :: "pystr \<Rightarrow> pyval option"
  json_dumps :: "bool \<Rightarrow> nat option \<Rightarrow> pyval \<Rightarrow> pystr"
  repr :: "pyval \<Rightarrow> pystr"
  subprocess_run :: "pystr \<Rightarrow> int \<Rightarrow> completed"

text \<open>\<^verbatim>\<open>str(x)\<close>: a string is itself, any other value is printed by \<^verbatim>\<open>repr\<close>.\<close>

definition py_str :: "runtime \<Rightarrow> pyval \<Rightarrow> pystr" where
  "py_str rt v = (case v of PyStr s \<Rightarrow> s | _ \<Rightarrow> repr rt v)"

text \<open>
  \<^verbatim>\<open>config.py\<close> is not among the sources; its constants are the fields of a record that
  every function takes. The caps and the round limit are counts. A team member and the
  leader are the records \<^verbatim>\<open>{id, name, display_name, avatar, system_prompt}\<close>.
\<close>

record persona =
  p_id :: pystr
  p_name :: pystr
  p_display_name :: pystr
  p_avatar :: pystr
  p_system_prompt :: pystr

record config =
  MODEL_NAME :: pystr
  MAX_TOOL_ROUNDS :: nat
  TEAM_MEMBERS :: "persona list"
  TEAM_LEADER :: persona
  PYTHON_TOOL_TIMEOUT_SECONDS :: int
  PYTHON_TOOL_MAX_OUTPUT_CHARS :: nat
  MAX_MEMORY_CHARS :: nat

section \<open>tools.py\<close>

subsection \<open>The memory file\<close>

text \<open>
  \<^verbatim>\<open>MEMORY_FILE\<close> is the text it holds, or \<open>None\<close> when it does not exist. The operating
  system is taken to carry out every open, read and write of the path; what Python
  decides on its own is part of the model.
\<close>

type_synonym memory_file = "pystr option"

text \<open>
  \<^verbatim>\<open>text.encode("utf-8")\<close> refuses a lone surrogate (a code point from D800 to DFFF). The
  error names the first run of surrogates, from \<open>start\<close> up to but not including
  \<open>stop\<close>, and its message is the one \<^verbatim>\<open>str(e)\<close> gives.
\<close>

definition is_surrogate :: "nat \<Rightarrow> bool" where
  "is_surrogate c \<longleftrightarrow> 55296 \<le> c \<and> c \<le> 57343"

definition utf8_encodable :: "pystr \<Rightarrow> bool" where
  "utf8_encodable text \<longleftrightarrow> filter is_surrogate text = []"

fun decimal :: "nat \<Rightarrow> pystr" where
  "decimal n = (if n < 10 then [48 + n] else decimal (n div 10) @ [48 + n mod 10])"

declare decimal.simps [simp del]

definition hex_digit :: "nat \<Rightarrow> nat" where
  "hex_digit d = (if d < 10 then 48 + d else 87 + d)"

definition hex4 :: "nat \<Rightarrow> pystr" where
  "hex4 c = [hex_digit (c div 4096 mod 16), hex_digit (c div 256 mod 16),
            hex_digit (c div 16 mod 16), hex_digit (c mod 16)]"

definition encode_error :: "pystr \<Rightarrow> exn" where
  "encode_error text =
     (let start = length (takeWhile (\<lambda>c. \<not> is_surrogate c) text);
          stop = start + length (takeWhile is_surrogate (drop start text))
      in UnicodeEncodeError
           (if stop = start + 1 then
              [39] @ ustr ''utf-8' codec can't encode character '' @ [39, 92, 117] @
              hex4 (text ! start) @ [39] @ ustr '' in position '' @ decimal start @
              ustr '': surrogates not allowed''
            else
              [39] @ ustr ''utf-8' codec can't encode characters in position '' @
              decimal start @ ustr ''-'' @ decimal (stop - 1) @
              ustr '': surrogates not allowed''))"

text \<open>
  \<^verbatim>\<open>MEMORY_FILE.write_text(text, encoding="utf-8")\<close>: the file is opened for writing, which
  empties it, and then the text is encoded and written. When the text cannot be encoded
  the exception leaves the file empty.
\<close>

definition write_text :: "pystr \<Rightarrow> exn option \<times> memory_file" where
  "write_text text =
     (if utf8_encodable text then (None, Some text) else (Some (encode_error text), Some []))"

definition load_memories :: "runtime \<Rightarrow> memory_file \<Rightarrow> pystr" where
  "load_memories rt f =
     (case f of
        None \<Rightarrow> []
      | Some text \<Rightarrow>
          (case json_loads rt text of
             Some (PyDict data) \<Rightarrow> py_str rt (dict_get data (ustr ''content'') (PyStr []))
           | _ \<Rightarrow> []))"

definition save_memories :: "runtime \<Rightarrow> pyval \<Rightarrow> exn option \<times> memory_file" where
  "save_memories rt content =
     write_text (json_dumps rt False (Some 2) (PyDict [(ustr ''content'', content)]))"

text \<open>
  The text \<open>save_memories\<close> writes for a content string. What the round trip through the
  file rests on, and the program does not decide: that \<^verbatim>\<open>json.loads\<close> reads back the
  document \<^verbatim>\<open>json.dumps\<close> wrote for a content string.
\<close>

definition stored_text :: "runtime \<Rightarrow> pystr \<Rightarrow> pystr" where
  "stored_text rt s = json_dumps rt False (Some 2) (PyDict [(ustr ''content'', PyStr s)])"

definition stores_faithfully :: "runtime \<Rightarrow> pystr \<Rightarrow> bool" where
  "stores_faithfully rt s \<longleftrightarrow>
     json_loads rt (json_dumps rt False (Some 2) (PyDict [(ustr ''content'', PyStr s)])) =
       Some (PyDict [(ustr ''content'', PyStr s)])"

subsection \<open>memory_tool\<close>

definition need_content :: pystr where
  "need_content = [38656, 35201, 25552, 20379] @ ustr '' content''"

definition run_memory_tool ::
  "config \<Rightarrow> runtime \<Rightarrow> pyval \<Rightarrow> memory_file \<Rightarrow> (exn + pyval) \<times> memory_file" where
  "run_memory_tool cfg rt content f =
     (if \<not> truthy content then
        (Inr (PyDict [(ustr ''ok'', PyBool False), (ustr ''error'', PyStr need_content)]), f)
      else
        (case py_len content of
           Inl e \<Rightarrow> (Inl e, f)
         | Inr n \<Rightarrow>
             (case (if n > MAX_MEMORY_CHARS cfg
                    then py_slice_to content (MAX_MEMORY_CHARS cfg) else Inr content) of
                Inl e \<Rightarrow> (Inl e, f)
              | Inr content' \<Rightarrow>
                  (case save_memories rt content' of
                     (Some e, f') \<Rightarrow> (Inl e, f')
                   | (None, f') \<Rightarrow>
                       (Inr (PyDict [(ustr ''ok'', PyBool True), (ustr ''content'', content')]),
                        f')))))"

subsection \<open>python_exec\<close>

text \<open>\<^verbatim>\<open>text[-half:]\<close>: the last \<open>half\<close> characters, and the whole text when \<open>half\<close> is 0.\<close>

definition last_chars :: "nat \<Rightarrow> pystr \<Rightarrow> pystr" where
  "last_chars half text = (if half = 0 then text else drop (length text - half) text)"

definition truncation_marker :: pystr where
  "truncation_marker = ustr ''\<newline>...<truncated>...\<newline>''"

definition truncate_text :: "pystr \<Rightarrow> nat \<Rightarrow> pystr" where
  "truncate_text text max_chars =
     (if length text \<le> max_chars then text
      else let half = max_chars div 2
           in take half text @ truncation_marker @ last_chars half text)"

definition run_python_tool :: "config \<Rightarrow> runtime \<Rightarrow> pystr \<Rightarrow> pyval" where
  "run_python_tool cfg rt code0 =
     (let code = strip code0 in
      if code = [] then
        PyDict [(ustr ''ok'', PyBool False), (ustr ''error'', PyStr (ustr ''code is empty''))]
      else
        (case subprocess_run rt code (PYTHON_TOOL_TIMEOUT_SECONDS cfg) of
           CompletedProcess returncode out err \<Rightarrow>
             PyDict [(ustr ''ok'', PyBool (returncode = 0)),
                     (ustr ''returncode'', PyInt returncode),
                     (ustr ''stdout'', PyStr (truncate_text out (PYTHON_TOOL_MAX_OUTPUT_CHARS cfg))),
                     (ustr ''stderr'', PyStr (truncate_text err (PYTHON_TOOL_MAX_OUTPUT_CHARS cfg)))]
         | TimeoutExpired \<Rightarrow>
             PyDict [(ustr ''ok'', PyBool False),
                     (ustr ''error'', PyStr (ustr ''python execution timed out after '' @
                        py_str rt (PyInt (PYTHON_TOOL_TIMEOUT_SECONDS cfg)) @ ustr ''s''))]
         | RunFailed e \<Rightarrow>
             PyDict [(ustr ''ok'', PyBool False), (ustr ''error'', PyStr (str_exn e))]))"

subsection \<open>Argument normalisation and dispatch\<close>

definition normalize_tool_arguments :: "runtime \<Rightarrow> pyval \<Rightarrow> pydict" where
  "normalize_tool_arguments rt raw_args =
     (case raw_args of
        PyDict d \<Rightarrow> d
      | PyStr s \<Rightarrow>
          (case json_loads rt s of
             Some (PyDict parsed) \<Rightarrow> parsed
           | Some _ \<Rightarrow> [(ustr ''code'', PyStr s)]
           | None \<Rightarrow> [(ustr ''code'', PyStr s)])
      | _ \<Rightarrow> [])"

definition dispatch_tool ::
  "config \<Rightarrow> runtime \<Rightarrow> pystr \<Rightarrow> pyval \<Rightarrow> memory_file \<Rightarrow> (exn + pyval) \<times> memory_file" where
  "dispatch_tool cfg rt tool_name raw_args f =
     (let args = normalize_tool_arguments rt raw_args in
      if tool_name = ustr ''python_exec'' then
        (Inr (run_python_tool cfg rt (py_str rt (dict_get args (ustr ''code'') (PyStr [])))), f)
      else if tool_name = ustr ''memory_tool'' then
        run_memory_tool cfg rt (dict_get args (ustr ''content'') PyNone) f
      else
        (Inr (PyDict [(ustr ''ok'', PyBool False),
                      (ustr ''error'', PyStr (ustr ''unknown tool: '' @ tool_name))]), f))"

subsection \<open>The tool registry\<close>

definition python_exec_schema :: pyval where
  "python_exec_schema =
     PyDict [
       (ustr ''type'', PyStr (ustr ''function'')),
       (ustr ''function'', PyDict [
          (ustr ''name'', PyStr (ustr ''python_exec'')),
          (ustr ''description'', PyStr (
             [25191, 34892, 19968, 27573] @ ustr '' Python '' @
             [20195, 30721, 24182, 36820, 22238] @ ustr '' stdout/stderr/'' @
             [36820, 22238, 30721, 12290, 36866, 21512, 35745, 31639, 12289, 25968, 25454,
              22788, 29702, 21644, 39564, 35777, 20013, 38388, 32467, 26524, 12290])),
          (ustr ''parameters'', PyDict [
             (ustr ''type'', PyStr (ustr ''object'')),
             (ustr ''properties'', PyDict [
                (ustr ''code'', PyDict [
                   (ustr ''type'', PyStr (ustr ''string'')),
                   (ustr ''description'', PyStr (
                      [35201, 25191, 34892, 30340] @ ustr '' Python '' @ [20195, 30721]))])]),
             (ustr ''required'', PyList [PyStr (ustr ''code'')])])])]"

definition memory_tool_schema :: "config \<Rightarrow> runtime \<Rightarrow> pyval" where
  "memory_tool_schema cfg rt =
     PyDict [
       (ustr ''type'', PyStr (ustr ''function'')),
       (ustr ''function'', PyDict [
          (ustr ''name'', PyStr (ustr ''memory_tool'')),
          (ustr ''description'', PyStr (
             [35206, 30422, 20889, 20837, 20851, 20110, 29992, 25143, 30340, 38271, 26399,
              35760, 24518, 65288, 20559, 22909, 12289, 20064, 24815, 12289, 36817, 26399,
              34892, 20026, 25688, 35201, 65289, 12290] @
             [27599, 27425, 35843, 29992, 37117, 20250, 29992, 26032, 20869, 23481, 23436,
              25972, 26367, 25442, 26087, 35760, 24518, 65292, 35831, 23558, 25152, 26377,
              38656, 35201, 20445, 30041, 30340, 20449, 24687, 19968, 27425, 24615, 20889,
              20837, 12290] @
             [20869, 23481, 38480, 21046, 20026, 32] @
             py_str rt (PyInt (int (MAX_MEMORY_CHARS cfg))) @
             [32, 23383, 31526, 65292, 36229, 36807, 37096, 20998, 33258, 21160, 25130,
              26029, 12290])),
          (ustr ''parameters'', PyDict [
             (ustr ''type'', PyStr (ustr ''object'')),
             (ustr ''properties'', PyDict [
                (ustr ''content'', PyDict [
                   (ustr ''type'', PyStr (ustr ''string'')),
                   (ustr ''description'', PyStr (
                      [35201, 20445, 23384, 30340, 20840, 37096, 35760, 24518, 20869, 23481,
                       65292, 19981, 36229, 36807, 32] @
                      py_str rt (PyInt (int (MAX_MEMORY_CHARS cfg))) @
                      [32, 23383, 31526]))])]),
             (ustr ''required'', PyList [PyStr (ustr ''content'')])])])]"

definition TOOLS :: "config \<Rightarrow> runtime \<Rightarrow> pyval list" where
  "TOOLS cfg rt = [python_exec_schema, memory_tool_schema cfg rt]"

section \<open>app.py\<close>

text \<open>
  \<^verbatim>\<open>t.get("function", {}).get("name")\<close> for an entry of the registry (each entry is a dict
  whose \<^verbatim>\<open>function\<close> is a dict), and the list comprehension that keeps \<^verbatim>\<open>python_exec\<close>.
\<close>

definition schema_name :: "pyval \<Rightarrow> pyval" where
  "schema_name t =
     (case t of
        PyDict d \<Rightarrow>
          (case dict_get d (ustr ''function'') (PyDict []) of
             PyDict fd \<Rightarrow> dict_get fd (ustr ''name'') PyNone
           | _ \<Rightarrow> PyNone)
      | _ \<Rightarrow> PyNone)"

definition PYTHON_ONLY_TOOLS :: "config \<Rightarrow> runtime \<Rightarrow> pyval list" where
  "PYTHON_ONLY_TOOLS cfg rt =
     filter (\<lambda>t. schema_name t = PyStr (ustr ''python_exec'')) (TOOLS cfg rt)"

subsection \<open>Messages, chunks, events\<close>

text \<open>
  A tool call as the model's client delivers it: \<^verbatim>\<open>id\<close> and \<^verbatim>\<open>function\<close> may be absent, and
  so may the function's \<^verbatim>\<open>name\<close>; absent \<^verbatim>\<open>arguments\<close> read as \<^verbatim>\<open>None\<close>. A message of the
  context is a dict from keys to a text or to a list of tool calls. A chunk of the stream
  carries what \<^verbatim>\<open>chunk.get("message")\<close> holds.
\<close>

record function_data =
  fn_name :: "pystr option"
  fn_arguments :: pyval

record tool_call =
  tc_id :: "pystr option"
  tc_function :: "function_data option"

datatype field = Text pystr | ToolCalls "tool_call list"

type_synonym message = "(pystr \<times> field) list"

record chunk =
  ch_thinking :: "pystr option"
  ch_content :: "pystr option"
  ch_tool_calls :: "tool_call list"

datatype event =
    Thinking pystr
  | Content pystr
  | Tool_request pystr pyval
  | Tool_result pystr pyval

subsection \<open>The model's client and the world\<close>

text \<open>
  One call of \<^verbatim>\<open>client.chat\<close> is the record of its keyword arguments. The client is a
  state transformer over a backend state of any type: it answers a call with the chunks
  its stream yields and, when the call or the stream raises, the exception that ends it.
  The world holds what outlives a function call: the list objects (an address is an index,
  so that two names of one list are one address), the backend, the memory file, and the
  log of the calls made to the model.
\<close>

record chat_call =
  c_model :: pystr
  c_messages :: "message list"
  c_stream :: bool
  c_tools :: "pyval list"
  c_temperature :: real
  c_num_predict :: int

type_synonym 'm client = "'m \<Rightarrow> chat_call \<Rightarrow> (chunk list \<times> exn option) \<times> 'm"

record 'm world =
  objs :: "message list list"
  backend :: 'm
  memory :: memory_file
  chat_calls :: "chat_call list"

text \<open>
  A new list object, \<^verbatim>\<open>xs.append(m)\<close>, and \<^verbatim>\<open>list(xs)\<close>. A name the program holds is the
  address of an object of the world (an index below their number); the theorems about a
  list the caller passes say so.
\<close>

definition new_list :: "message list \<Rightarrow> 'm world \<Rightarrow> nat \<times> 'm world" where
  "new_list xs w = (length (objs w), w\<lparr>objs := objs w @ [xs]\<rparr>)"

definition list_append :: "nat \<Rightarrow> message \<Rightarrow> 'm world \<Rightarrow> 'm world" where
  "list_append r m w = w\<lparr>objs := (objs w)[r := objs w ! r @ [m]]\<rparr>"

definition list_copy :: "nat \<Rightarrow> 'm world \<Rightarrow> nat \<times> 'm world" where
  "list_copy r w = new_list (objs w ! r) w"

subsection \<open>The streaming loop\<close>

definition limit_message :: pystr where
  "limit_message =
     [24037, 20855, 35843, 29992, 36718, 27425, 36798, 21040, 19978, 38480, 65292, 35831,
      32553, 23567, 38382, 39064, 33539, 22260, 21518, 37325, 35797, 12290]"

record round_acc =
  collected_content :: "pystr list"
  collected_thinking :: "pystr list"
  collected_tool_calls :: "tool_call list"

text \<open>The body of \<^verbatim>\<open>async for chunk in stream_response\<close>, and the whole stream.\<close>

definition on_chunk :: "chunk \<Rightarrow> round_acc \<Rightarrow> round_acc \<times> event list" where
  "on_chunk c acc =
     (let (acc1, ev1) =
            (case ch_thinking c of
               Some thinking \<Rightarrow>
                 if thinking \<noteq> [] then
                   (acc\<lparr>collected_thinking := collected_thinking acc @ [thinking]\<rparr>,
                    [Thinking thinking])
                 else (acc, [])
             | None \<Rightarrow> (acc, []));
          (acc2, ev2) =
            (case ch_content c of
               Some content \<Rightarrow>
                 if content \<noteq> [] then
                   (acc1\<lparr>collected_content := collected_content acc1 @ [content]\<rparr>,
                    [Content content])
                 else (acc1, [])
             | None \<Rightarrow> (acc1, []));
          acc3 = (if ch_tool_calls c \<noteq> [] then acc2\<lparr>collected_tool_calls := ch_tool_calls c\<rparr>
                  else acc2)
      in (acc3, ev1 @ ev2))"

fun consume_stream :: "chunk list \<Rightarrow> round_acc \<Rightarrow> round_acc \<times> event list" where
  "consume_stream [] acc = (acc, [])"
| "consume_stream (c # cs) acc =
     (let (acc1, evs1) = on_chunk c acc;
          (acc2, evs2) = consume_stream cs acc1
      in (acc2, evs1 @ evs2))"

text \<open>The assistant message of a round, and its conditional append to the context.\<close>

definition assistant_msg :: "round_acc \<Rightarrow> message" where
  "assistant_msg acc =
     (let m0 = [(ustr ''role'', Text (ustr ''assistant''))];
          full_content = strip (concat (collected_content acc));
          full_thinking = strip (concat (collected_thinking acc));
          m1 = (if full_content \<noteq> []
                then AList.update (ustr ''content'') (Text full_content) m0 else m0);
          m2 = (if full_thinking \<noteq> []
                then AList.update (ustr ''thinking'') (Text full_thinking) m1 else m1);
          m3 = (if collected_tool_calls acc \<noteq> []
                then AList.update (ustr ''tool_calls'') (ToolCalls (collected_tool_calls acc)) m2
                else m2)
      in m3)"

definition append_assistant :: "nat \<Rightarrow> round_acc \<Rightarrow> 'm world \<Rightarrow> 'm world" where
  "append_assistant ctx acc w =
     (if set (map fst (assistant_msg acc)) - {ustr ''role''} \<noteq> {}
      then list_append ctx (assistant_msg acc) w else w)"

text \<open>
  The condition in the specification's words: after trimming, at least one of content,
  thinking and tool calls is not empty.
\<close>

definition has_content :: "round_acc \<Rightarrow> bool" where
  "has_content acc \<longleftrightarrow>
     strip (concat (collected_content acc)) \<noteq> [] \<or>
     strip (concat (collected_thinking acc)) \<noteq> [] \<or>
     collected_tool_calls acc \<noteq> []"

text \<open>
  \<^verbatim>\<open>function_data = tool_call.get("function") or {}\<close> and
  \<^verbatim>\<open>tool_name = function_data.get("name", "")\<close>. Then
  \<^verbatim>\<open>for tool_call in collected_tool_calls\<close>: the request event goes out before the tool
  runs, so it has been emitted when \<open>dispatch_tool\<close> raises; the exception then ends the
  generator.
\<close>

definition function_of :: "tool_call \<Rightarrow> function_data" where
  "function_of tc =
     (case tc_function tc of
        None \<Rightarrow> \<lparr>fn_name = None, fn_arguments = PyNone\<rparr>
      | Some fd \<Rightarrow> fd)"

definition tool_name_of :: "tool_call \<Rightarrow> pystr" where
  "tool_name_of tc = (case fn_name (function_of tc) of None \<Rightarrow> [] | Some n \<Rightarrow> n)"

definition tool_msg :: "runtime \<Rightarrow> tool_call \<Rightarrow> pystr \<Rightarrow> pyval \<Rightarrow> message" where
  "tool_msg rt tc tool_name tool_result =
     (let m = [(ustr ''role'', Text (ustr ''tool'')),
               (ustr ''name'', Text tool_name),
               (ustr ''content'', Text (json_dumps rt False None tool_result))]
      in case tc_id tc of
           Some tool_call_id \<Rightarrow>
             if tool_call_id \<noteq> []
             then AList.update (ustr ''tool_call_id'') (Text tool_call_id) m else m
         | None \<Rightarrow> m)"

fun run_tool_calls ::
  "config \<Rightarrow> runtime \<Rightarrow> nat \<Rightarrow> tool_call list \<Rightarrow> 'm world \<Rightarrow> event list \<times> exn option \<times> 'm world"
where
  "run_tool_calls cfg rt ctx [] w = ([], None, w)"
| "run_tool_calls cfg rt ctx (tc # tcs) w =
     (let function_data = function_of tc;
          tool_name = tool_name_of tc;
          args = (if truthy (fn_arguments function_data) then fn_arguments function_data
                  else PyDict [])
      in case dispatch_tool cfg rt tool_name (fn_arguments function_data) (memory w) of
           (Inl e, f) \<Rightarrow> ([Tool_request tool_name args], Some e, w\<lparr>memory := f\<rparr>)
         | (Inr tool_result, f) \<Rightarrow>
             (let w1 = list_append ctx (tool_msg rt tc tool_name tool_result) (w\<lparr>memory := f\<rparr>);
                  (evs, r, w2) = run_tool_calls cfg rt ctx tcs w1
              in (Tool_request tool_name args # Tool_result tool_name tool_result # evs, r, w2)))"

text \<open>
  One pass of \<^verbatim>\<open>for _ in range(MAX_TOOL_ROUNDS)\<close>. It ends the generator (\<open>Return\<close>), raises,
  or goes on to the next pass.
\<close>

datatype status = Continue | Return | Raise exn

definition make_call ::
  "config \<Rightarrow> runtime \<Rightarrow> real \<Rightarrow> int \<Rightarrow> pyval list option \<Rightarrow> message list \<Rightarrow> chat_call" where
  "make_call cfg rt temperature max_tokens tools ctx_messages =
     \<lparr>c_model = MODEL_NAME cfg, c_messages = ctx_messages, c_stream = True,
      c_tools = (case tools of None \<Rightarrow> TOOLS cfg rt | Some ts \<Rightarrow> ts),
      c_temperature = temperature, c_num_predict = max_tokens\<rparr>"

definition no_acc :: round_acc where
  "no_acc = \<lparr>collected_content = [], collected_thinking = [], collected_tool_calls = []\<rparr>"

definition one_round ::
  "config \<Rightarrow> runtime \<Rightarrow> 'm client \<Rightarrow> real \<Rightarrow> int \<Rightarrow> pyval list option \<Rightarrow> nat \<Rightarrow> 'm world
     \<Rightarrow> event list \<times> status \<times> 'm world" where
  "one_round cfg rt client temperature max_tokens tools ctx w =
     (let call = make_call cfg rt temperature max_tokens tools (objs w ! ctx);
          ((chunks, failure), b) = client (backend w) call;
          w1 = w\<lparr>backend := b, chat_calls := chat_calls w @ [call]\<rparr>;
          (acc, evs) = consume_stream chunks no_acc
      in case failure of
           Some e \<Rightarrow> (evs, Raise e, w1)
         | None \<Rightarrow>
             (let w2 = append_assistant ctx acc w1 in
              if collected_tool_calls acc = [] then (evs, Return, w2)
              else
                (case run_tool_calls cfg rt ctx (collected_tool_calls acc) w2 of
                   (tevs, Some e, w3) \<Rightarrow> (evs @ tevs, Raise e, w3)
                 | (tevs, None, w3) \<Rightarrow> (evs @ tevs, Continue, w3))))"

fun rounds ::
  "nat \<Rightarrow> config \<Rightarrow> runtime \<Rightarrow> 'm client \<Rightarrow> real \<Rightarrow> int \<Rightarrow> pyval list option \<Rightarrow> nat \<Rightarrow> 'm world
     \<Rightarrow> event list \<times> exn option \<times> 'm world" where
  "rounds 0 cfg rt client temperature max_tokens tools ctx w =
     ([Content limit_message], None, w)"
| "rounds (Suc n) cfg rt client temperature max_tokens tools ctx w =
     (case one_round cfg rt client temperature max_tokens tools ctx w of
        (evs, Return, w1) \<Rightarrow> (evs, None, w1)
      | (evs, Raise e, w1) \<Rightarrow> (evs, Some e, w1)
      | (evs, Continue, w1) \<Rightarrow>
          (let (evs', r, w2) = rounds n cfg rt client temperature max_tokens tools ctx w1
           in (evs @ evs', r, w2)))"

text \<open>
  \<^verbatim>\<open>_streaming_loop\<close>: the events it yields, the exception that ended it if one did, and the
  world it leaves. \<open>conversation\<close> is the address of the caller's list; \<^verbatim>\<open>ctx\<close> is the
  address \<^verbatim>\<open>list(conversation)\<close> gets, the next free one.
\<close>

definition streaming_loop ::
  "config \<Rightarrow> runtime \<Rightarrow> 'm client \<Rightarrow> nat \<Rightarrow> real \<Rightarrow> int \<Rightarrow> pyval list option \<Rightarrow> 'm world
     \<Rightarrow> event list \<times> exn option \<times> 'm world" where
  "streaming_loop cfg rt client conversation temperature max_tokens tools w =
     (let (ctx, w0) = list_copy conversation w
      in rounds (MAX_TOOL_ROUNDS cfg) cfg rt client temperature max_tokens tools ctx w0)"

subsection \<open>Events on the wire\<close>

definition sse_data :: "pystr \<Rightarrow> pystr" where
  "sse_data payload = ustr ''data: '' @ payload @ ustr ''\<newline>\<newline>''"

fun sse_from_event :: "runtime \<Rightarrow> event \<Rightarrow> pystr" where
  "sse_from_event rt (Thinking text) =
     sse_data (json_dumps rt True None
       (PyDict [(ustr ''choices'',
          PyList [PyDict [(ustr ''delta'', PyDict [(ustr ''thinking'', PyStr text)])]])]))"
| "sse_from_event rt (Content text) =
     sse_data (json_dumps rt True None
       (PyDict [(ustr ''choices'',
          PyList [PyDict [(ustr ''delta'', PyDict [(ustr ''content'', PyStr text)])]])]))"
| "sse_from_event rt (Tool_request tool args) =
     sse_data (json_dumps rt False None
       (PyDict [(ustr ''tool_event'',
          PyDict [(ustr ''type'', PyStr (ustr ''request'')), (ustr ''tool'', PyStr tool),
                  (ustr ''arguments'', args)])]))"
| "sse_from_event rt (Tool_result tool result) =
     sse_data (json_dumps rt False None
       (PyDict [(ustr ''tool_event'',
          PyDict [(ustr ''type'', PyStr (ustr ''result'')), (ustr ''tool'', PyStr tool),
                  (ustr ''result'', result)])]))"

text \<open>
  What a consumer of the loop forwards: \<^verbatim>\<open>sse = _sse_from_event(event)\<close>, then
  \<^verbatim>\<open>if sse: yield sse\<close>. The terminators of a stream.
\<close>

definition forward :: "runtime \<Rightarrow> event list \<Rightarrow> pystr list" where
  "forward rt evs = filter (\<lambda>sse. sse \<noteq> []) (map (sse_from_event rt) evs)"

definition done_sse :: pystr where
  "done_sse = ustr ''data: [DONE]\<newline>\<newline>''"

definition error_sse :: "runtime \<Rightarrow> exn \<Rightarrow> pystr" where
  "error_sse rt e =
     sse_data (json_dumps rt True None (PyDict [(ustr ''error'', PyStr (str_exn e))]))"

text \<open>The text of the \<^verbatim>\<open>content\<close> events, as \<^verbatim>\<open>full_content += event["text"]\<close> collects it.\<close>

fun content_text :: "event list \<Rightarrow> pystr" where
  "content_text [] = []"
| "content_text (Content text # evs) = text @ content_text evs"
| "content_text (ev # evs) = content_text evs"

fun thinking_text :: "event list \<Rightarrow> pystr" where
  "thinking_text [] = []"
| "thinking_text (Thinking text # evs) = text @ thinking_text evs"
| "thinking_text (ev # evs) = thinking_text evs"

subsection \<open>The chat endpoint\<close>

record message_in =
  m_role :: pystr
  m_content :: pystr

record chat_request =
  r_messages :: "message_in list"
  r_temperature :: real
  r_max_tokens :: int
  r_stream :: bool

definition outgoing_of :: "chat_request \<Rightarrow> message list" where
  "outgoing_of request =
     map (\<lambda>m. [(ustr ''role'', Text (m_role m)), (ustr ''content'', Text (m_content m))])
       (r_messages request)"

datatype response =
    StreamingResponse "pystr list"
  | JsonResponse pyval
  | HTTPException int pystr

definition chat ::
  "config \<Rightarrow> runtime \<Rightarrow> 'm client \<Rightarrow> chat_request \<Rightarrow> 'm world \<Rightarrow> response \<times> 'm world" where
  "chat cfg rt client request w =
     (let (outgoing, w0) = new_list (outgoing_of request) w;
          (evs, r, w1) = streaming_loop cfg rt client outgoing (r_temperature request)
             (r_max_tokens request) (Some (PYTHON_ONLY_TOOLS cfg rt)) w0
      in if r_stream request then
           (case r of
              None \<Rightarrow> (StreamingResponse (forward rt evs @ [done_sse]), w1)
            | Some e \<Rightarrow> (StreamingResponse (forward rt evs @ [error_sse rt e]), w1))
         else
           (case r of
              None \<Rightarrow>
                (JsonResponse (PyDict [(ustr ''choices'', PyList [PyDict [(ustr ''message'',
                   PyDict [(ustr ''role'', PyStr (ustr ''assistant'')),
                           (ustr ''content'', PyStr (content_text evs)),
                           (ustr ''thinking'', PyStr (thinking_text evs))])]])]), w1)
            | Some e \<Rightarrow> (HTTPException 500 (str_exn e), w1)))"

subsection \<open>The team endpoint\<close>

definition meta :: "persona \<Rightarrow> pydict" where
  "meta p = [(ustr ''id'', PyStr (p_id p)), (ustr ''name'', PyStr (p_name p)),
             (ustr ''display_name'', PyStr (p_display_name p)),
             (ustr ''avatar'', PyStr (p_avatar p))]"

definition team_sse :: "runtime \<Rightarrow> pydict \<Rightarrow> pystr" where
  "team_sse rt ev = sse_data (json_dumps rt False None (PyDict [(ustr ''team_event'', PyDict ev)]))"

definition member_start :: "runtime \<Rightarrow> persona \<Rightarrow> pystr" where
  "member_start rt member =
     team_sse rt (AList.updates (map fst (meta member)) (map snd (meta member))
        [(ustr ''type'', PyStr (ustr ''member_start''))])"

definition member_end :: "runtime \<Rightarrow> persona \<Rightarrow> pystr" where
  "member_end rt member =
     team_sse rt [(ustr ''type'', PyStr (ustr ''member_end'')), (ustr ''id'', PyStr (p_id member))]"

definition leader_start :: "runtime \<Rightarrow> persona \<Rightarrow> pystr" where
  "leader_start rt leader =
     team_sse rt (AList.updates (map fst (meta leader)) (map snd (meta leader))
        [(ustr ''type'', PyStr (ustr ''leader_start''))])"

definition leader_end :: "runtime \<Rightarrow> persona \<Rightarrow> pystr" where
  "leader_end rt leader =
     team_sse rt [(ustr ''type'', PyStr (ustr ''leader_end'')), (ustr ''id'', PyStr (p_id leader))]"

definition system_msg :: "pystr \<Rightarrow> message" where
  "system_msg prompt = [(ustr ''role'', Text (ustr ''system'')), (ustr ''content'', Text prompt)]"

text \<open>
  \<^verbatim>\<open>for member in TEAM_MEMBERS\<close>. \<^verbatim>\<open>outgoing\<close> is only read here (each member's context is
  a new list built from it), so it is passed as its value. An exception of a member's loop
  leaves the \<^verbatim>\<open>for\<close> with what was yielded so far.
\<close>

fun run_members ::
  "config \<Rightarrow> runtime \<Rightarrow> 'm client \<Rightarrow> message list \<Rightarrow> real \<Rightarrow> int \<Rightarrow> persona list
     \<Rightarrow> (pystr \<times> pystr) list \<Rightarrow> 'm world
     \<Rightarrow> pystr list \<times> exn option \<times> (pystr \<times> pystr) list \<times> 'm world" where
  "run_members cfg rt client outgoing temperature max_tokens [] member_answers w =
     ([], None, member_answers, w)"
| "run_members cfg rt client outgoing temperature max_tokens (member # rest) member_answers w =
     (let (member_ctx, w0) = new_list (system_msg (p_system_prompt member) # outgoing) w;
          (evs, r, w1) = streaming_loop cfg rt client member_ctx temperature max_tokens
             (Some (PYTHON_ONLY_TOOLS cfg rt)) w0;
          out = member_start rt member # forward rt evs
      in case r of
           Some e \<Rightarrow> (out, Some e, member_answers, w1)
         | None \<Rightarrow>
             (let answers1 = AList.update (p_id member) (content_text evs) member_answers;
                  (out', r', answers2, w2) =
                    run_members cfg rt client outgoing temperature max_tokens rest answers1 w1
              in (out @ [member_end rt member] @ out', r', answers2, w2)))"

text \<open>\<^verbatim>\<open>sep.join(parts)\<close>, and the leader's user message.\<close>

fun join :: "pystr \<Rightarrow> pystr list \<Rightarrow> pystr" where
  "join sep [] = []"
| "join sep [x] = x"
| "join sep (x # y # ys) = x @ sep @ join sep (y # ys)"

definition no_answer :: pystr where
  "no_answer = [65288, 26080, 22238, 31572, 65289]"

definition member_section :: "(pystr \<times> pystr) list \<Rightarrow> persona \<Rightarrow> pystr" where
  "member_section member_answers m =
     ustr ''<'' @ p_id m @ ustr ''>\<newline>'' @
     (case map_of member_answers (p_id m) of None \<Rightarrow> no_answer | Some a \<Rightarrow> a) @
     ustr ''\<newline></'' @ p_id m @ ustr ''>''"

text \<open>
  \<^verbatim>\<open>outgoing[-1]["content"] if outgoing else ""\<close>; the key is there, with a text, in every
  message built from a request.
\<close>

definition original_question :: "message list \<Rightarrow> exn + pystr" where
  "original_question outgoing =
     (if outgoing = [] then Inr []
      else (case map_of (last outgoing) (ustr ''content'') of
              Some (Text c) \<Rightarrow> Inr c
            | _ \<Rightarrow> Inl (KeyError ([39] @ ustr ''content'' @ [39]))))"

definition leader_user_msg :: "config \<Rightarrow> pystr \<Rightarrow> (pystr \<times> pystr) list \<Rightarrow> pystr" where
  "leader_user_msg cfg question member_answers =
     [38382, 39064, 65306] @ question @ ustr ''\<newline>\<newline>'' @
     [32972, 26223, 21442, 32771, 65288, 20869, 37096, 20998, 26512, 65292, 20165, 20379,
      21442, 32771, 65289, 65306, 10] @
     join (ustr ''\<newline>\<newline>'') (map (member_section member_answers) (TEAM_MEMBERS cfg))"

text \<open>
  The body of \<^verbatim>\<open>try\<close> in \<^verbatim>\<open>generate\<close>: what it yields before its last line, and the exception
  that cut it short if one did. \<open>chat_team\<close> is the whole generator: the body, then the
  \<^verbatim>\<open>[DONE]\<close> line, or the error line of \<^verbatim>\<open>except Exception\<close>.
\<close>

definition team_generate ::
  "config \<Rightarrow> runtime \<Rightarrow> 'm client \<Rightarrow> chat_request \<Rightarrow> 'm world
     \<Rightarrow> pystr list \<times> exn option \<times> 'm world" where
  "team_generate cfg rt client request w =
     (let outgoing = outgoing_of request in
      case run_members cfg rt client outgoing (r_temperature request) (r_max_tokens request)
             (TEAM_MEMBERS cfg) [] w of
        (out, Some e, member_answers, w1) \<Rightarrow> (out, Some e, w1)
      | (out, None, member_answers, w1) \<Rightarrow>
          (case original_question outgoing of
             Inl e \<Rightarrow> (out, Some e, w1)
           | Inr question \<Rightarrow>
               (let (leader_ctx, w2) = new_list
                      [system_msg (p_system_prompt (TEAM_LEADER cfg)),
                       [(ustr ''role'', Text (ustr ''user'')),
                        (ustr ''content'', Text (leader_user_msg cfg question member_answers))]] w1;
                    (evs, r, w3) = streaming_loop cfg rt client leader_ctx (r_temperature request)
                       (r_max_tokens request) (Some (PYTHON_ONLY_TOOLS cfg rt)) w2;
                    out1 = out @ [leader_start rt (TEAM_LEADER cfg)] @ forward rt evs
                in case r of
                     Some e \<Rightarrow> (out1, Some e, w3)
                   | None \<Rightarrow> (out1 @ [leader_end rt (TEAM_LEADER cfg)], None, w3))))"

definition chat_team ::
  "config \<Rightarrow> runtime \<Rightarrow> 'm client \<Rightarrow> chat_request \<Rightarrow> 'm world \<Rightarrow> pystr list \<times> 'm world" where
  "chat_team cfg rt client request w =
     (case team_generate cfg rt client request w of
        (out, None, w1) \<Rightarrow> (out @ [done_sse], w1)
      | (out, Some e, w1) \<Rightarrow> (out @ [error_sse rt e], w1))"

section \<open>Vocabulary of the properties\<close>

text \<open>
  The events of a round that ran its tools: text deltas, then at least one request each
  followed by the result of the same tool. A tool call returns when \<open>dispatch_tool\<close> gives
  a result for it whatever the memory file holds. A model that always requests tools
  answers every call with a stream that ends normally and carries at least one tool call,
  each of which returns.
\<close>

fun is_delta :: "event \<Rightarrow> bool" where
  "is_delta (Thinking text) = True"
| "is_delta (Content text) = True"
| "is_delta ev = False"

fun tool_pairs :: "event list \<Rightarrow> bool" where
  "tool_pairs [] = True"
| "tool_pairs (Tool_request tool args # Tool_result tool' result # evs) =
     (tool = tool' \<and> tool_pairs evs)"
| "tool_pairs evs = False"

definition round_events :: "event list \<Rightarrow> bool" where
  "round_events evs \<longleftrightarrow>
     dropWhile is_delta evs \<noteq> [] \<and> tool_pairs (dropWhile is_delta evs)"

definition requested :: "'m client \<Rightarrow> 'm \<Rightarrow> chat_call \<Rightarrow> tool_call list" where
  "requested client b call =
     collected_tool_calls (fst (consume_stream (fst (fst (client b call))) no_acc))"

definition returns :: "config \<Rightarrow> runtime \<Rightarrow> tool_call \<Rightarrow> bool" where
  "returns cfg rt tc \<longleftrightarrow>
     (\<forall>f. \<exists>res f'. dispatch_tool cfg rt (tool_name_of tc) (fn_arguments (function_of tc)) f =
        (Inr res, f'))"

definition always_requests_tools :: "config \<Rightarrow> runtime \<Rightarrow> 'm client \<Rightarrow> bool" where
  "always_requests_tools cfg rt client \<longleftrightarrow>
     (\<forall>b call. snd (fst (client b call)) = None \<and> requested client b call \<noteq> [] \<and>
        list_all (returns cfg rt) (requested client b call))"

text \<open>
  \<open>loop_run\<close>: the events are what one run of the loop yields, from a conversation with
  these messages and with the restricted registry, when the run ends without an
  exception. \<open>member_block\<close>: a member's frames around its forwarded events.
\<close>

definition loop_run ::
  "config \<Rightarrow> runtime \<Rightarrow> 'm client \<Rightarrow> real \<Rightarrow> int \<Rightarrow> message list \<Rightarrow> event list \<Rightarrow> bool" where
  "loop_run cfg rt client temperature max_tokens conversation evs \<longleftrightarrow>
     (\<exists>w ctx w'. ctx < length (objs w) \<and> objs w ! ctx = conversation \<and>
        streaming_loop cfg rt client ctx temperature max_tokens
          (Some (PYTHON_ONLY_TOOLS cfg rt)) w = (evs, None, w'))"

definition member_block :: "runtime \<Rightarrow> persona \<Rightarrow> event list \<Rightarrow> pystr list" where
  "member_block rt member evs = member_start rt member # forward rt evs @ [member_end rt member]"

section \<open>Stubs for concrete runs\<close>

text \<open>
  A configuration with three members and a leader, two rounds and small caps; a runtime
  whose \<^verbatim>\<open>json\<close> module is a table over the few documents the runs below use; and model
  stubs with no state: one that streams nothing, one that answers with a text, one that
  always asks for an unknown tool, one that always asks \<^verbatim>\<open>memory_tool\<close> to store the
  number 5, and one whose backend is unreachable.
\<close>

definition rex :: persona where
  "rex = \<lparr>p_id = ustr ''rex'', p_name = ustr ''Rex'', p_display_name = ustr ''Rex'',
           p_avatar = ustr ''R'', p_system_prompt = ustr ''You are Rex.''\<rparr>"

definition nova :: persona where
  "nova = \<lparr>p_id = ustr ''nova'', p_name = ustr ''Nova'', p_display_name = ustr ''Nova'',
            p_avatar = ustr ''N'', p_system_prompt = ustr ''You are Nova.''\<rparr>"

definition vera :: persona where
  "vera = \<lparr>p_id = ustr ''vera'', p_name = ustr ''Vera'', p_display_name = ustr ''Vera'',
            p_avatar = ustr ''V'', p_system_prompt = ustr ''You are Vera.''\<rparr>"

definition sage :: persona where
  "sage = \<lparr>p_id = ustr ''sage'', p_name = ustr ''Sage'', p_display_name = ustr ''Sage'',
            p_avatar = ustr ''S'', p_system_prompt = ustr ''You are Sage.''\<rparr>"

definition example_config :: config where
  "example_config =
     \<lparr>MODEL_NAME = ustr ''model'', MAX_TOOL_ROUNDS = 2, TEAM_MEMBERS = [rex, nova, vera],
      TEAM_LEADER = sage, PYTHON_TOOL_TIMEOUT_SECONDS = 30,
      PYTHON_TOOL_MAX_OUTPUT_CHARS = 4, MAX_MEMORY_CHARS = 2\<rparr>"

definition json_table :: "(pyval \<times> pystr) list" where
  "json_table =
     [(PyDict [], ustr ''{}''),
      (PyInt 5, ustr ''5''),
      (PyDict [(ustr ''content'', PyStr (ustr ''hi''))],
         ustr ''{\<newline>  \"content\": \"hi\"\<newline>}''),
      (PyDict [(ustr ''content'', PyStr (ustr ''he''))],
         ustr ''{\<newline>  \"content\": \"he\"\<newline>}''),
      (PyDict [(ustr ''content'', PyStr [55296])],
         ustr ''{\<newline>  \"content\": \"'' @ [55296] @ ustr ''\"\<newline>}'')]"

definition example_runtime :: runtime where
  "example_runtime =
     \<lparr>json_loads = (\<lambda>s. map_of (map (\<lambda>(v, t). (t, v)) json_table) s),
      json_dumps = (\<lambda>ensure_ascii indent v.
         case map_of json_table v of Some t \<Rightarrow> t | None \<Rightarrow> ustr ''null''),
      repr = (\<lambda>v. ustr ''<object>''),
      subprocess_run = (\<lambda>code timeout. CompletedProcess 0 [] [])\<rparr>"

definition empty_world :: "unit world" where
  "empty_world = \<lparr>objs = [], backend = (), memory = None, chat_calls = []\<rparr>"

definition silent_client :: "unit client" where
  "silent_client b call = (([], None), b)"

definition answering_client :: "unit client" where
  "answering_client b call =
     (([\<lparr>ch_thinking = None, ch_content = Some (ustr ''ok''), ch_tool_calls = []\<rparr>], None), b)"

definition noop_client :: "unit client" where
  "noop_client b call =
     (([\<lparr>ch_thinking = None, ch_content = None,
         ch_tool_calls = [\<lparr>tc_id = None,
            tc_function = Some \<lparr>fn_name = Some (ustr ''noop''), fn_arguments = PyDict []\<rparr>\<rparr>]\<rparr>],
       None), b)"

definition memory_int_client :: "unit client" where
  "memory_int_client b call =
     (([\<lparr>ch_thinking = None, ch_content = None,
         ch_tool_calls = [\<lparr>tc_id = None,
            tc_function = Some \<lparr>fn_name = Some (ustr ''memory_tool''),
              fn_arguments = PyDict [(ustr ''content'', PyInt 5)]\<rparr>\<rparr>]\<rparr>],
       None), b)"

definition unreachable_client :: "unit client" where
  "unreachable_client b call = (([], Some (Exception (ustr ''connection refused''))), b)"

definition hi_request :: chat_request where
  "hi_request =
     \<lparr>r_messages = [\<lparr>m_role = ustr ''user'', m_content = ustr ''hi''\<rparr>],
      r_temperature = 0.7, r_max_tokens = 10240, r_stream = True\<rparr>"

text \<open>A world whose only list is the conversation of that request, at address 0.\<close>

definition hi_world :: "unit world" where
  "hi_world = snd (new_list (outgoing_of hi_request) empty_world)"

section \<open>Properties of tools.py\<close>

lemma ustr_eq_iff: "ustr a = ustr b \<longleftrightarrow> a = b"
  by (simp add: ustr_def inj_map_eq_map inj_on_def)

lemma length_truncation_marker: "length truncation_marker = 19"
  by (simp add: truncation_marker_def ustr_def)

text \<open>
  Claim C4, as amended. A text as long as the cap is returned as it is. For a cap of at
  least 2, a text one character longer than the cap becomes its first \<open>cap div 2\<close>
  characters, the marker and its last \<open>cap div 2\<close> characters; the marker alone has 19
  characters, so the result has \<open>2 * (cap div 2) + 19\<close> characters and is longer than the
  text it was made from, not shorter.
\<close>

theorem truncate_text_boundary:
  "(length text = cap \<longrightarrow> truncate_text text cap = text) \<and>
   (length text = cap + 1 \<and> 2 \<le> cap \<longrightarrow>
      truncate_text text cap =
        take (cap div 2) text @ truncation_marker @ drop (length text - cap div 2) text \<and>
      length (take (cap div 2) text) = cap div 2 \<and>
      length (drop (length text - cap div 2) text) = cap div 2 \<and>
      length (truncate_text text cap) = 2 * (cap div 2) + 19 \<and>
      length text < length (truncate_text text cap))"
proof (intro conjI impI)
  assume "length text = cap"
  then show "truncate_text text cap = text" by (simp add: truncate_text_def)
next
  assume h: "length text = cap + 1 \<and> 2 \<le> cap"
  then have half: "cap div 2 \<le> length text" by auto
  from h have nz: "cap div 2 \<noteq> 0" by arith
  have lc: "last_chars (cap div 2) text = drop (length text - cap div 2) text"
    unfolding last_chars_def using nz by (simp only: if_False)
  from h have "\<not> length text \<le> cap" by simp
  then show eq: "truncate_text text cap =
        take (cap div 2) text @ truncation_marker @ drop (length text - cap div 2) text"
    by (simp add: truncate_text_def Let_def lc)
  from half show l1: "length (take (cap div 2) text) = cap div 2" by simp
  from half show l2: "length (drop (length text - cap div 2) text) = cap div 2" by simp
  from eq l1 l2 show l3: "length (truncate_text text cap) = 2 * (cap div 2) + 19"
    by (simp add: length_truncation_marker)
  from h l3 show "length text < length (truncate_text text cap)" by simp
qed

theorem truncate_text_boundary_witness:
  "truncate_text (ustr ''abcd'') 4 = ustr ''abcd'' \<and>
   truncate_text (ustr ''abcde'') 4 = ustr ''ab\<newline>...<truncated>...\<newline>de'' \<and>
   length (truncate_text (ustr ''abcde'') 4) = 23"
  using truncate_text_boundary [of "ustr ''abcd''" 4] truncate_text_boundary [of "ustr ''abcde''" 4]
  by (simp add: ustr_def truncation_marker_def)

text \<open>
  Claim C4 as stated fails: with a cap of 4 the five characters \<^verbatim>\<open>abcde\<close> become 23
  characters; and with a cap of 1 (where \<^verbatim>\<open>text[-0:]\<close> is the whole text) the result is the
  marker followed by all of the text, not two halves of equal size.
\<close>

theorem truncate_text_not_shorter:
  "\<not> length (truncate_text (ustr ''abcde'') 4) < length (ustr ''abcde'') \<and>
   truncate_text (ustr ''ab'') 1 = truncation_marker @ ustr ''ab''"
  by (simp add: truncate_text_def last_chars_def Let_def ustr_def truncation_marker_def)

text \<open>
  Claim C7. A mapping is returned as it is; a string that decodes to a mapping is replaced
  by that mapping; a string that does not decode, or decodes to something else, becomes
  \<^verbatim>\<open>{"code": <the string>}\<close>; any other value becomes the empty mapping.
\<close>

theorem normalize_tool_arguments_shapes:
  "(\<forall>d. normalize_tool_arguments rt (PyDict d) = d) \<and>
   (\<forall>s d. json_loads rt s = Some (PyDict d) \<longrightarrow> normalize_tool_arguments rt (PyStr s) = d) \<and>
   (\<forall>s. json_loads rt s = None \<or> (\<exists>v. json_loads rt s = Some v \<and> (\<forall>d. v \<noteq> PyDict d)) \<longrightarrow>
        normalize_tool_arguments rt (PyStr s) = [(ustr ''code'', PyStr s)]) \<and>
   (\<forall>v. (\<forall>d. v \<noteq> PyDict d) \<and> (\<forall>s. v \<noteq> PyStr s) \<longrightarrow> normalize_tool_arguments rt v = [])"
proof (intro conjI allI impI)
  fix d show "normalize_tool_arguments rt (PyDict d) = d"
    by (simp add: normalize_tool_arguments_def)
next
  fix s d assume "json_loads rt s = Some (PyDict d)"
  then show "normalize_tool_arguments rt (PyStr s) = d"
    by (simp add: normalize_tool_arguments_def)
next
  fix s
  assume "json_loads rt s = None \<or> (\<exists>v. json_loads rt s = Some v \<and> (\<forall>d. v \<noteq> PyDict d))"
  then show "normalize_tool_arguments rt (PyStr s) = [(ustr ''code'', PyStr s)]"
    by (auto simp: normalize_tool_arguments_def split: pyval.splits)
next
  fix v assume "(\<forall>d. v \<noteq> PyDict d) \<and> (\<forall>s. v \<noteq> PyStr s)"
  then show "normalize_tool_arguments rt v = []"
    by (cases v) (simp_all add: normalize_tool_arguments_def)
qed

lemma example_loads:
  "json_loads example_runtime (ustr ''{}'') = Some (PyDict [])"
  "json_loads example_runtime (ustr ''5'') = Some (PyInt 5)"
  "json_loads example_runtime (ustr ''print(1)'') = None"
  by (simp_all add: example_runtime_def json_table_def ustr_def)

theorem normalize_tool_arguments_shapes_witness:
  "normalize_tool_arguments example_runtime (PyDict [(ustr ''code'', PyStr (ustr ''1''))]) =
     [(ustr ''code'', PyStr (ustr ''1''))] \<and>
   normalize_tool_arguments example_runtime (PyStr (ustr ''{}'')) = [] \<and>
   normalize_tool_arguments example_runtime (PyStr (ustr ''print(1)'')) =
     [(ustr ''code'', PyStr (ustr ''print(1)''))] \<and>
   normalize_tool_arguments example_runtime (PyStr (ustr ''5'')) =
     [(ustr ''code'', PyStr (ustr ''5''))] \<and>
   normalize_tool_arguments example_runtime PyNone = [] \<and>
   normalize_tool_arguments example_runtime (PyList [PyInt 1]) = []"
  using normalize_tool_arguments_shapes [of example_runtime]
  by (simp add: example_loads)

lemma save_encodable:
  "utf8_encodable (stored_text rt s) \<Longrightarrow>
     save_memories rt (PyStr s) = (None, Some (stored_text rt s))"
  by (simp add: save_memories_def write_text_def stored_text_def)

lemma save_unencodable:
  "\<not> utf8_encodable (stored_text rt s) \<Longrightarrow>
     save_memories rt (PyStr s) = (Some (encode_error (stored_text rt s)), Some [])"
  by (simp add: save_memories_def write_text_def stored_text_def)

lemma load_stored:
  "stores_faithfully rt s \<Longrightarrow> load_memories rt (Some (stored_text rt s)) = s"
  by (simp add: stores_faithfully_def stored_text_def load_memories_def dict_get_def py_str_def)

text \<open>
  The round trip for the strings UTF-8 can encode: where the \<^verbatim>\<open>json\<close> module reads back
  what it wrote and the text to store holds no lone surrogate, a content string that is
  not empty and no longer than the cap is read back as it was written, and a longer one is
  read back as its first \<open>MAX_MEMORY_CHARS\<close> characters, whatever the file held before.
\<close>

lemma memory_round_trip_encodable:
  "(s \<noteq> [] \<and> length s \<le> MAX_MEMORY_CHARS cfg \<and> stores_faithfully rt s \<and>
      utf8_encodable (stored_text rt s) \<longrightarrow>
      load_memories rt (snd (run_memory_tool cfg rt (PyStr s) f)) = s) \<and>
   (MAX_MEMORY_CHARS cfg < length s \<and> stores_faithfully rt (take (MAX_MEMORY_CHARS cfg) s) \<and>
      utf8_encodable (stored_text rt (take (MAX_MEMORY_CHARS cfg) s)) \<longrightarrow>
      load_memories rt (snd (run_memory_tool cfg rt (PyStr s) f)) = take (MAX_MEMORY_CHARS cfg) s)"
  by (auto simp: run_memory_tool_def save_encodable load_stored)

lemma example_stores:
  "stores_faithfully example_runtime (ustr ''hi'')" "stores_faithfully example_runtime (ustr ''he'')"
  "stores_faithfully example_runtime [55296]"
  by (simp_all add: stores_faithfully_def example_runtime_def json_table_def ustr_def)

lemma example_stored_text:
  "stored_text example_runtime (ustr ''hi'') = ustr ''{\<newline>  \"content\": \"hi\"\<newline>}''"
  "stored_text example_runtime (ustr ''he'') = ustr ''{\<newline>  \"content\": \"he\"\<newline>}''"
  "stored_text example_runtime [55296] =
     ustr ''{\<newline>  \"content\": \"'' @ [55296] @ ustr ''\"\<newline>}''"
  by (simp_all add: stored_text_def example_runtime_def json_table_def ustr_def)

lemma memory_round_trip_example:
  "load_memories example_runtime
     (snd (run_memory_tool example_config example_runtime (PyStr (ustr ''hi'')) None)) = ustr ''hi'' \<and>
   load_memories example_runtime
     (snd (run_memory_tool example_config example_runtime (PyStr (ustr ''hello'')) None)) = ustr ''he''"
proof -
  have "utf8_encodable (stored_text example_runtime (ustr ''hi''))"
    "utf8_encodable (stored_text example_runtime (ustr ''he''))"
    by (simp_all only: example_stored_text)
       (simp_all add: utf8_encodable_def is_surrogate_def ustr_def)
  then show ?thesis
    using memory_round_trip_encodable [of "ustr ''hi''" example_config example_runtime None]
      memory_round_trip_encodable [of "ustr ''hello''" example_config example_runtime None]
      example_stores
    by (simp add: example_config_def ustr_def)
qed

text \<open>
  A content string whose text cannot be encoded is not stored: the tool raises and the
  file is left empty.
\<close>

lemma run_memory_tool_unencodable:
  "s \<noteq> [] \<Longrightarrow> length s \<le> MAX_MEMORY_CHARS cfg \<Longrightarrow> \<not> utf8_encodable (stored_text rt s) \<Longrightarrow>
     run_memory_tool cfg rt (PyStr s) f = (Inl (encode_error (stored_text rt s)), Some [])"
  by (simp add: run_memory_tool_def save_unencodable)

text \<open>
  Claim C8 does not hold of the code. The string of the one code point D800 (a lone
  surrogate, which \<^verbatim>\<open>json.loads\<close> produces from \<^verbatim>\<open>"\ud800"\<close>) is not empty and no longer
  than the cap of 2, and the \<^verbatim>\<open>json\<close> module reads back the document written for it. Writing
  it through the memory tool over an earlier memory raises \<^verbatim>\<open>UnicodeEncodeError\<close> in
  \<^verbatim>\<open>write_text\<close>, after the file was opened and so emptied; reading then gives the empty
  string, not the string written. \<open>run_memory_tool\<close> has no handler for it, where
  \<open>run_python_tool\<close> and \<open>load_memories\<close> catch every exception.
\<close>

theorem memory_write_raises_on_surrogate:
  "MAX_MEMORY_CHARS example_config = 2 \<and>
   stores_faithfully example_runtime [55296] \<and>
   run_memory_tool example_config example_runtime (PyStr [55296])
     (Some (ustr ''{\<newline>  \"content\": \"hi\"\<newline>}'')) =
     (Inl (UnicodeEncodeError
        ([39] @ ustr ''utf-8' codec can't encode character '' @ [39, 92, 117] @
         ustr ''d800' in position 16: surrogates not allowed'')),
      Some []) \<and>
   load_memories example_runtime (Some []) = []"
proof -
  have t: "stored_text example_runtime [55296] =
      ustr ''{\<newline>  \"content\": \"'' @ [55296] @ ustr ''\"\<newline>}''"
    by (rule example_stored_text)
  have u: "\<not> utf8_encodable (stored_text example_runtime [55296])"
    by (simp add: t utf8_encodable_def is_surrogate_def ustr_def)
  have e: "encode_error (stored_text example_runtime [55296]) =
      UnicodeEncodeError
        ([39] @ ustr ''utf-8' codec can't encode character '' @ [39, 92, 117] @
         ustr ''d800' in position 16: surrogates not allowed'')"
    by (simp add: t encode_error_def Let_def is_surrogate_def ustr_def hex4_def hex_digit_def
        decimal.simps)
  have l: "load_memories example_runtime (Some []) = []"
    by (simp add: load_memories_def example_runtime_def json_table_def ustr_def)
  have c: "MAX_MEMORY_CHARS example_config = 2" by (simp add: example_config_def)
  from run_memory_tool_unencodable [of "[55296]" example_config example_runtime, OF _ _ u] c e
  have "run_memory_tool example_config example_runtime (PyStr [55296])
     (Some (ustr ''{\<newline>  \"content\": \"hi\"\<newline>}'')) =
     (Inl (UnicodeEncodeError
        ([39] @ ustr ''utf-8' codec can't encode character '' @ [39, 92, 117] @
         ustr ''d800' in position 16: surrogates not allowed'')),
      Some [])"
    by simp
  with c l example_stores(3) show ?thesis by simp
qed

text \<open>
  Claim C6 does not hold of the code. \<open>dispatch_tool\<close> hands \<^verbatim>\<open>args.get("content")\<close> to
  \<open>run_memory_tool\<close> as it is (the \<^verbatim>\<open>python_exec\<close> branch passes its argument through
  \<^verbatim>\<open>str\<close> first), and \<^verbatim>\<open>len\<close> of a number raises: for the arguments \<^verbatim>\<open>{"content": 5}\<close> the call
  ends in a \<^verbatim>\<open>TypeError\<close>, with every configuration, runtime and memory file.
\<close>

theorem dispatch_tool_raises_on_number:
  "dispatch_tool cfg rt (ustr ''memory_tool'') (PyDict [(ustr ''content'', PyInt 5)]) f =
     (Inl (TypeError (ustr ''object of type 'int' has no len()'')), f)"
  by (simp add: dispatch_tool_def normalize_tool_arguments_def dict_get_def run_memory_tool_def
      ustr_eq_iff)

text \<open>The rest of the contract holds: the other two branches return a result.\<close>

lemma dispatch_tool_unknown:
  "tool_name \<noteq> ustr ''python_exec'' \<Longrightarrow> tool_name \<noteq> ustr ''memory_tool'' \<Longrightarrow>
   dispatch_tool cfg rt tool_name raw_args f =
     (Inr (PyDict [(ustr ''ok'', PyBool False),
                   (ustr ''error'', PyStr (ustr ''unknown tool: '' @ tool_name))]), f)"
  by (simp add: dispatch_tool_def)

lemma dispatch_tool_python_exec:
  "\<exists>res. dispatch_tool cfg rt (ustr ''python_exec'') raw_args f = (Inr res, f)"
  by (simp add: dispatch_tool_def)

text \<open>
  Exactly when it raises: the tool is \<^verbatim>\<open>memory_tool\<close> and the content is a number or a
  truth value other than zero and \<^verbatim>\<open>False\<close>, or a dict with more entries than the cap
  (which cannot be sliced), or a value whose text to store cannot be encoded.
\<close>

lemma run_memory_tool_raises_iff:
  "(\<exists>e. fst (run_memory_tool cfg rt content f) = Inl e) \<longleftrightarrow>
     truthy content \<and>
     (case content of
        PyStr s \<Rightarrow> fst (save_memories rt (PyStr (take (MAX_MEMORY_CHARS cfg) s))) \<noteq> None
      | PyList xs \<Rightarrow> fst (save_memories rt (PyList (take (MAX_MEMORY_CHARS cfg) xs))) \<noteq> None
      | PyDict d \<Rightarrow> MAX_MEMORY_CHARS cfg < length d \<or> fst (save_memories rt (PyDict d)) \<noteq> None
      | _ \<Rightarrow> True)"
  by (cases content) (auto simp: run_memory_tool_def split: prod.splits option.splits)

lemma dispatch_tool_raises_iff:
  "(\<exists>e. fst (dispatch_tool cfg rt tool_name raw_args f) = Inl e) \<longleftrightarrow>
     tool_name = ustr ''memory_tool'' \<and>
     (\<exists>e. fst (run_memory_tool cfg rt
        (dict_get (normalize_tool_arguments rt raw_args) (ustr ''content'') PyNone) f) = Inl e)"
  by (auto simp: dispatch_tool_def Let_def ustr_eq_iff)

section \<open>Properties of the streaming loop\<close>

subsection \<open>What a round and the loop do to the list objects\<close>

lemma keys_assistant_msg:
  "map fst (assistant_msg acc) =
     [ustr ''role''] @
     (if strip (concat (collected_content acc)) \<noteq> [] then [ustr ''content''] else []) @
     (if strip (concat (collected_thinking acc)) \<noteq> [] then [ustr ''thinking''] else []) @
     (if collected_tool_calls acc \<noteq> [] then [ustr ''tool_calls''] else [])"
  by (simp add: assistant_msg_def Let_def ustr_eq_iff)

lemma assistant_msg_has_field:
  "set (map fst (assistant_msg acc)) - {ustr ''role''} \<noteq> {} \<longleftrightarrow>
     strip (concat (collected_content acc)) \<noteq> [] \<or>
     strip (concat (collected_thinking acc)) \<noteq> [] \<or>
     collected_tool_calls acc \<noteq> []"
  unfolding keys_assistant_msg by (auto simp: ustr_eq_iff)

lemma lists_append_assistant:
  "objs (append_assistant ctx acc w) =
     (objs w)[ctx := objs w ! ctx @
        (if strip (concat (collected_content acc)) \<noteq> [] \<or>
            strip (concat (collected_thinking acc)) \<noteq> [] \<or>
            collected_tool_calls acc \<noteq> []
         then [assistant_msg acc] else [])]"
  unfolding append_assistant_def assistant_msg_has_field
  by (simp add: list_append_def)

lemma append_assistant_rest:
  "backend (append_assistant ctx acc w) = backend w"
  "chat_calls (append_assistant ctx acc w) = chat_calls w"
  "memory (append_assistant ctx acc w) = memory w"
  by (simp_all add: append_assistant_def list_append_def)

lemma role_tool_msg:
  "map_of (tool_msg rt tc tool_name tool_result) (ustr ''role'') = Some (Text (ustr ''tool''))"
  by (simp add: tool_msg_def Let_def ustr_eq_iff split: option.splits)

lemma run_tool_calls_frame:
  "ctx < length (objs w) \<Longrightarrow> run_tool_calls cfg rt ctx tcs w = (evs, r, w') \<Longrightarrow>
     \<exists>msgs. objs w' = (objs w)[ctx := objs w ! ctx @ msgs] \<and>
            (\<forall>m\<in>set msgs. map_of m (ustr ''role'') = Some (Text (ustr ''tool''))) \<and>
            backend w' = backend w \<and> chat_calls w' = chat_calls w"
proof (induction tcs arbitrary: w evs r w')
  case Nil
  then have "w' = w" by simp
  then have "objs w' = (objs w)[ctx := objs w ! ctx @ []]" by simp
  with \<open>w' = w\<close> show ?case by (metis empty_iff list.set(1))
next
  case (Cons tc tcs)
  define fd where "fd = function_of tc"
  define tool_name where "tool_name = tool_name_of tc"
  obtain res f where d: "dispatch_tool cfg rt tool_name (fn_arguments fd) (memory w) = (res, f)"
    by (cases "dispatch_tool cfg rt tool_name (fn_arguments fd) (memory w)")
  show ?case
  proof (cases res)
    case (Inl e)
    with Cons.prems(2) d have "w' = w\<lparr>memory := f\<rparr>"
      by (simp add: fd_def tool_name_def Let_def)
    then have "objs w' = (objs w)[ctx := objs w ! ctx @ []]"
      "backend w' = backend w" "chat_calls w' = chat_calls w" by simp_all
    then show ?thesis by (metis empty_iff list.set(1))
  next
    case (Inr tool_result)
    define m where "m = tool_msg rt tc tool_name tool_result"
    define w1 where "w1 = list_append ctx m (w\<lparr>memory := f\<rparr>)"
    obtain evs1 r1 w2 where rec: "run_tool_calls cfg rt ctx tcs w1 = (evs1, r1, w2)"
      by (cases "run_tool_calls cfg rt ctx tcs w1") auto
    from Cons.prems(2) d Inr rec have w': "w' = w2"
      by (simp add: fd_def tool_name_def Let_def m_def w1_def)
    have l1: "objs w1 = (objs w)[ctx := objs w ! ctx @ [m]]"
      and r1: "backend w1 = backend w" "chat_calls w1 = chat_calls w"
      by (simp_all add: w1_def list_append_def)
    with Cons.prems(1) have v1: "ctx < length (objs w1)" by simp
    from Cons.IH [OF v1 rec] obtain msgs where
      m2: "objs w2 = (objs w1)[ctx := objs w1 ! ctx @ msgs]"
      and t2: "\<forall>m\<in>set msgs. map_of m (ustr ''role'') = Some (Text (ustr ''tool''))"
      and b2: "backend w2 = backend w1" "chat_calls w2 = chat_calls w1" by blast
    from m2 l1 Cons.prems(1) have "objs w2 = (objs w)[ctx := objs w ! ctx @ (m # msgs)]"
      by simp
    moreover from t2 have "\<forall>x\<in>set (m # msgs). map_of x (ustr ''role'') = Some (Text (ustr ''tool''))"
      by (simp add: m_def role_tool_msg)
    ultimately show ?thesis using b2 r1 w' by metis
  qed
qed


lemma one_round_failed:
  assumes "client (backend w) (make_call cfg rt temperature max_tokens tools (objs w ! ctx)) =
             ((chunks, Some e), b)"
  shows "one_round cfg rt client temperature max_tokens tools ctx w =
           (snd (consume_stream chunks no_acc), Raise e,
            w\<lparr>backend := b, chat_calls := chat_calls w @
               [make_call cfg rt temperature max_tokens tools (objs w ! ctx)]\<rparr>)"
  using assms by (simp add: one_round_def Let_def split: prod.splits)

lemma one_round_completed:
  assumes v: "ctx < length (objs w)"
    and c: "client (backend w) (make_call cfg rt temperature max_tokens tools (objs w ! ctx)) =
             ((chunks, None), b)"
    and a: "consume_stream chunks no_acc = (acc, sevs)"
    and r: "one_round cfg rt client temperature max_tokens tools ctx w = (evs, st, w')"
  shows "\<exists>tool_msgs tevs.
           objs w' = (objs w)[ctx := objs w ! ctx @
              (if has_content acc then [assistant_msg acc] else []) @ tool_msgs] \<and>
           (\<forall>m\<in>set tool_msgs. map_of m (ustr ''role'') = Some (Text (ustr ''tool''))) \<and>
           (collected_tool_calls acc = [] \<longrightarrow> tool_msgs = [] \<and> st = Return) \<and>
           evs = sevs @ tevs \<and> backend w' = b \<and>
           chat_calls w' = chat_calls w @
              [make_call cfg rt temperature max_tokens tools (objs w ! ctx)]"
proof -
  define call where "call = make_call cfg rt temperature max_tokens tools (objs w ! ctx)"
  define w1 where "w1 = w\<lparr>backend := b, chat_calls := chat_calls w @ [call]\<rparr>"
  define w2 where "w2 = append_assistant ctx acc w1"
  have l2: "objs w2 = (objs w)[ctx := objs w ! ctx @
      (if has_content acc then [assistant_msg acc] else [])]"
    by (simp add: w2_def lists_append_assistant has_content_def w1_def)
  have b2: "backend w2 = b" "chat_calls w2 = chat_calls w @ [call]"
    by (simp_all add: w2_def append_assistant_rest w1_def)
  show ?thesis
  proof (cases "collected_tool_calls acc = []")
    case True
    with c a r have "w' = w2" "st = Return" "evs = sevs"
      by (simp_all add: one_round_def Let_def w2_def w1_def call_def)
    with l2 b2 True show ?thesis by (simp add: call_def)
  next
    case False
    obtain tevs r3 w3 where t: "run_tool_calls cfg rt ctx (collected_tool_calls acc) w2 = (tevs, r3, w3)"
      by (cases "run_tool_calls cfg rt ctx (collected_tool_calls acc) w2") auto
    with c a r False have w': "w' = w3" "evs = sevs @ tevs"
      by (auto simp: one_round_def Let_def w2_def w1_def call_def split: option.splits)
    from v l2 have v2: "ctx < length (objs w2)" by simp
    from run_tool_calls_frame [OF v2 t] obtain msgs where
      m: "objs w3 = (objs w2)[ctx := objs w2 ! ctx @ msgs]"
      "\<forall>m\<in>set msgs. map_of m (ustr ''role'') = Some (Text (ustr ''tool''))"
      "backend w3 = backend w2" "chat_calls w3 = chat_calls w2" by blast
    from m(1) l2 v have "objs w3 = (objs w)[ctx := objs w ! ctx @
        (if has_content acc then [assistant_msg acc] else []) @ msgs]" by simp
    with m(2,3,4) b2 w' False show ?thesis by (auto simp: call_def)
  qed
qed

lemma one_round_frame:
  assumes v: "ctx < length (objs w)"
    and r: "one_round cfg rt client temperature max_tokens tools ctx w = (evs, st, w')"
  shows "\<exists>msgs. objs w' = (objs w)[ctx := objs w ! ctx @ msgs]"
proof -
  obtain chunks failure b where
    c: "client (backend w) (make_call cfg rt temperature max_tokens tools (objs w ! ctx)) =
          ((chunks, failure), b)"
    by (metis surj_pair)
  show ?thesis
  proof (cases failure)
    case (Some e)
    with c r have "objs w' = objs w" by (auto simp: one_round_failed)
    then have "objs w' = (objs w)[ctx := objs w ! ctx @ []]" by simp
    then show ?thesis by blast
  next
    case None
    obtain acc sevs where a: "consume_stream chunks no_acc = (acc, sevs)" by (metis surj_pair)
    from one_round_completed [OF v c [unfolded None] a r] show ?thesis by blast
  qed
qed

lemma rounds_frame:
  "ctx < length (objs w) \<Longrightarrow>
   rounds n cfg rt client temperature max_tokens tools ctx w = (evs, r, w') \<Longrightarrow>
   \<exists>msgs. objs w' = (objs w)[ctx := objs w ! ctx @ msgs]"
proof (induction n arbitrary: w evs r w')
  case 0
  then have "objs w' = (objs w)[ctx := objs w ! ctx @ []]" by simp
  then show ?case by blast
next
  case (Suc n)
  obtain evs1 st w1 where
    o: "one_round cfg rt client temperature max_tokens tools ctx w = (evs1, st, w1)"
    by (metis surj_pair)
  from one_round_frame [OF Suc.prems(1) o] obtain msgs1 where
    l1: "objs w1 = (objs w)[ctx := objs w ! ctx @ msgs1]" by blast
  show ?case
  proof (cases st)
    case Continue
    obtain evs2 r2 w2 where
      rec: "rounds n cfg rt client temperature max_tokens tools ctx w1 = (evs2, r2, w2)"
      by (metis surj_pair)
    with Suc.prems(2) o Continue have "w' = w2" by simp
    from l1 Suc.prems(1) have v1: "ctx < length (objs w1)" by simp
    from Suc.IH [OF v1 rec] obtain msgs2 where
      "objs w2 = (objs w1)[ctx := objs w1 ! ctx @ msgs2]" by blast
    with l1 Suc.prems(1) have "objs w2 = (objs w)[ctx := objs w ! ctx @ (msgs1 @ msgs2)]"
      by simp
    with \<open>w' = w2\<close> show ?thesis by blast
  next
    case Return
    with Suc.prems(2) o have "w' = w1" by simp
    with l1 show ?thesis by blast
  next
    case (Raise e)
    with Suc.prems(2) o have "w' = w1" by simp
    with l1 show ?thesis by blast
  qed
qed

lemma streaming_loop_frame:
  assumes v: "conversation < length (objs w)"
    and r: "streaming_loop cfg rt client conversation temperature max_tokens tools w = (evs, r, w')"
  shows "\<exists>msgs. objs w' = objs w @ [objs w ! conversation @ msgs]"
proof -
  define w0 where "w0 = w\<lparr>objs := objs w @ [objs w ! conversation]\<rparr>"
  from r have rr: "rounds (MAX_TOOL_ROUNDS cfg) cfg rt client temperature max_tokens tools
      (length (objs w)) w0 = (evs, r, w')"
    by (simp add: streaming_loop_def list_copy_def new_list_def w0_def)
  have v0: "length (objs w) < length (objs w0)" by (simp add: w0_def)
  from rounds_frame [OF v0 rr] obtain msgs where
    "objs w' = (objs w0)[length (objs w) := objs w0 ! length (objs w) @ msgs]" by blast
  then have "objs w' = objs w @ [objs w ! conversation @ msgs]" by (simp add: w0_def)
  then show ?thesis by blast
qed

lemma objs_hi_world: "objs hi_world = [outgoing_of hi_request]"
  by (simp add: hi_world_def new_list_def empty_world_def)

lemma ustr_Nil_iff: "ustr s = [] \<longleftrightarrow> s = []"
  by (simp add: ustr_def)

lemma strip_Nil: "strip [] = []"
  by (simp add: strip_def)

lemma strip_ok: "strip (ustr ''ok'') = ustr ''ok''"
  by (simp add: strip_def ustr_def py_isspace_def)

lemma answering_stream:
  "consume_stream [\<lparr>ch_thinking = None, ch_content = Some (ustr ''ok''), ch_tool_calls = []\<rparr>] no_acc =
     (\<lparr>collected_content = [ustr ''ok''], collected_thinking = [], collected_tool_calls = []\<rparr>,
      [Content (ustr ''ok'')])"
  by (simp add: on_chunk_def no_acc_def ustr_def)

text \<open>
  Claim C2. In a round that builds its assistant message (its stream ends without an
  exception), the context afterwards is the context before, then the assistant message
  exactly when one of its trimmed content, its trimmed thinking and its tool calls is not
  empty, then the \<^verbatim>\<open>tool\<close> messages of the round (none when there was no tool call); so a
  round that yields none of the three leaves the context as it was. Over any number of
  rounds the context only grows at its end, and no other list changes. A round whose
  stream raises builds no message and changes no list.
\<close>

theorem assistant_turn_appended_iff_nonempty:
  assumes ctx: "ctx < length (objs w)"
  shows
   "(\<forall>chunks b acc sevs evs st w1.
       client (backend w) (make_call cfg rt temperature max_tokens tools (objs w ! ctx)) =
         ((chunks, None), b) \<and>
       consume_stream chunks no_acc = (acc, sevs) \<and>
       one_round cfg rt client temperature max_tokens tools ctx w = (evs, st, w1) \<longrightarrow>
       (\<exists>tool_msgs.
          objs w1 ! ctx =
            objs w ! ctx @ (if has_content acc then [assistant_msg acc] else []) @ tool_msgs \<and>
          (\<forall>m\<in>set tool_msgs. map_of m (ustr ''role'') = Some (Text (ustr ''tool''))) \<and>
          (collected_tool_calls acc = [] \<longrightarrow> tool_msgs = [])) \<and>
       (\<not> has_content acc \<longrightarrow> objs w1 ! ctx = objs w ! ctx)) \<and>
    (\<forall>n evs r w'.
       rounds n cfg rt client temperature max_tokens tools ctx w = (evs, r, w') \<longrightarrow>
       prefix (objs w ! ctx) (objs w' ! ctx) \<and>
       length (objs w') = length (objs w) \<and>
       (\<forall>k. k \<noteq> ctx \<longrightarrow> objs w' ! k = objs w ! k)) \<and>
    (\<forall>chunks e b evs st w1.
       client (backend w) (make_call cfg rt temperature max_tokens tools (objs w ! ctx)) =
         ((chunks, Some e), b) \<and>
       one_round cfg rt client temperature max_tokens tools ctx w = (evs, st, w1) \<longrightarrow>
       objs w1 = objs w)"
proof (intro conjI allI impI)
  fix chunks b acc sevs evs st w1
  assume h: "client (backend w) (make_call cfg rt temperature max_tokens tools (objs w ! ctx)) =
         ((chunks, None), b) \<and>
       consume_stream chunks no_acc = (acc, sevs) \<and>
       one_round cfg rt client temperature max_tokens tools ctx w = (evs, st, w1)"
  from one_round_completed [OF ctx] h obtain tool_msgs where
    t: "objs w1 = (objs w)[ctx := objs w ! ctx @
          (if has_content acc then [assistant_msg acc] else []) @ tool_msgs]"
      "\<forall>m\<in>set tool_msgs. map_of m (ustr ''role'') = Some (Text (ustr ''tool''))"
      "collected_tool_calls acc = [] \<longrightarrow> tool_msgs = []"
    by blast
  from t(1) ctx have e: "objs w1 ! ctx =
      objs w ! ctx @ (if has_content acc then [assistant_msg acc] else []) @ tool_msgs"
    by simp
  with t(2,3) show "\<exists>tool_msgs.
          objs w1 ! ctx =
            objs w ! ctx @ (if has_content acc then [assistant_msg acc] else []) @ tool_msgs \<and>
          (\<forall>m\<in>set tool_msgs. map_of m (ustr ''role'') = Some (Text (ustr ''tool''))) \<and>
          (collected_tool_calls acc = [] \<longrightarrow> tool_msgs = [])"
    by blast
  show "objs w1 ! ctx = objs w ! ctx" if "\<not> has_content acc"
  proof -
    from that have "collected_tool_calls acc = []" by (simp add: has_content_def)
    with t(3) have "tool_msgs = []" by simp
    with e that show ?thesis by simp
  qed
next
  fix n evs r w'
  assume r: "rounds n cfg rt client temperature max_tokens tools ctx w = (evs, r, w')"
  from rounds_frame [OF ctx r] obtain msgs where
    m: "objs w' = (objs w)[ctx := objs w ! ctx @ msgs]" by blast
  with ctx show "prefix (objs w ! ctx) (objs w' ! ctx)" by simp
  from m show "length (objs w') = length (objs w)" by simp
  fix k assume "k \<noteq> ctx"
  with m show "objs w' ! k = objs w ! k" by simp
next
  fix chunks e b evs st w1
  assume "client (backend w) (make_call cfg rt temperature max_tokens tools (objs w ! ctx)) =
         ((chunks, Some e), b) \<and>
       one_round cfg rt client temperature max_tokens tools ctx w = (evs, st, w1)"
  then show "objs w1 = objs w" by (auto simp: one_round_failed)
qed

theorem assistant_turn_appended_iff_nonempty_witness:
  "objs (snd (snd (one_round example_config example_runtime answering_client 0.7 100 None 0 hi_world))) ! 0 =
     outgoing_of hi_request @
       [[(ustr ''role'', Text (ustr ''assistant'')), (ustr ''content'', Text (ustr ''ok''))]] \<and>
   objs (snd (snd (one_round example_config example_runtime silent_client 0.7 100 None 0 hi_world))) ! 0 =
     outgoing_of hi_request"
proof -
  have v: "0 < length (objs hi_world)" by (simp add: objs_hi_world)
  let ?acc = "\<lparr>collected_content = [ustr ''ok''], collected_thinking = [], collected_tool_calls = []\<rparr>"
  let ?R = "one_round example_config example_runtime answering_client 0.7 100 None 0 hi_world"
  let ?S = "one_round example_config example_runtime silent_client 0.7 100 None 0 hi_world"
  have a: "has_content ?acc" "assistant_msg ?acc =
      [(ustr ''role'', Text (ustr ''assistant'')), (ustr ''content'', Text (ustr ''ok''))]"
    by (simp_all add: has_content_def assistant_msg_def Let_def strip_ok strip_Nil ustr_eq_iff
        ustr_Nil_iff)
  have p1: "answering_client (backend hi_world)
      (make_call example_config example_runtime 0.7 100 None (objs hi_world ! 0)) =
      (([\<lparr>ch_thinking = None, ch_content = Some (ustr ''ok''), ch_tool_calls = []\<rparr>], None), ())"
    by (simp add: answering_client_def)
  have p3: "?R = (fst ?R, fst (snd ?R), snd (snd ?R))" by simp
  from assistant_turn_appended_iff_nonempty [OF v, THEN conjunct1, rule_format,
      OF conjI [OF p1 conjI [OF answering_stream p3]]] a
  have 1: "objs (snd (snd ?R)) ! 0 = outgoing_of hi_request @
       [[(ustr ''role'', Text (ustr ''assistant'')), (ustr ''content'', Text (ustr ''ok''))]]"
    by (auto simp: objs_hi_world)
  have n: "\<not> has_content no_acc" by (simp add: has_content_def no_acc_def strip_Nil)
  have q1: "silent_client (backend hi_world)
      (make_call example_config example_runtime 0.7 100 None (objs hi_world ! 0)) = (([], None), ())"
    by (simp add: silent_client_def)
  have q2: "consume_stream [] no_acc = (no_acc, [])" by simp
  have q3: "?S = (fst ?S, fst (snd ?S), snd (snd ?S))" by simp
  from assistant_turn_appended_iff_nonempty [OF v, THEN conjunct1, rule_format,
      OF conjI [OF q1 conjI [OF q2 q3]]] n
  have "objs (snd (snd ?S)) ! 0 = outgoing_of hi_request"
    by (simp add: objs_hi_world)
  with 1 show ?thesis by simp
qed

text \<open>
  Claim C10. The loop works on a new list, a copy of the caller's: when it ends, by a
  return or by an exception, every list that existed before is as it was, the caller's
  conversation among them, and the one new list is the conversation with the appended
  messages after it.
\<close>

theorem streaming_loop_leaves_conversation:
  assumes "conversation < length (objs w)"
    and "streaming_loop cfg rt client conversation temperature max_tokens tools w = (evs, r, w')"
  shows "take (length (objs w)) (objs w') = objs w \<and>
         objs w' ! conversation = objs w ! conversation \<and>
         (\<exists>appended. objs w' = objs w @ [objs w ! conversation @ appended])"
proof -
  from streaming_loop_frame [OF assms] obtain msgs where
    m: "objs w' = objs w @ [objs w ! conversation @ msgs]" by blast
  with assms(1) show ?thesis by (simp add: nth_append)
qed

theorem streaming_loop_leaves_conversation_witness:
  "take 1 (objs (snd (snd (streaming_loop example_config example_runtime answering_client 0
      0.7 100 None hi_world)))) = [outgoing_of hi_request] \<and>
   objs (snd (snd (streaming_loop example_config example_runtime answering_client 0
      0.7 100 None hi_world))) ! 0 = outgoing_of hi_request"
  using streaming_loop_leaves_conversation [of 0 hi_world example_config example_runtime
      answering_client "0.7" 100 None
      "fst (streaming_loop example_config example_runtime answering_client 0 0.7 100 None hi_world)"
      "fst (snd (streaming_loop example_config example_runtime answering_client 0 0.7 100 None hi_world))"
      "snd (snd (streaming_loop example_config example_runtime answering_client 0 0.7 100 None hi_world))"]
  by (simp add: objs_hi_world)

subsection \<open>The calls made to the model\<close>

lemma c_tools_make_call:
  "c_tools (make_call cfg rt temperature max_tokens tools msgs) =
     (case tools of None \<Rightarrow> TOOLS cfg rt | Some ts \<Rightarrow> ts)"
  by (simp add: make_call_def)

lemma one_round_calls:
  assumes v: "ctx < length (objs w)"
    and r: "one_round cfg rt client temperature max_tokens tools ctx w = (evs, st, w')"
  shows "chat_calls w' = chat_calls w @
           [make_call cfg rt temperature max_tokens tools (objs w ! ctx)]"
proof -
  obtain chunks failure b where
    c: "client (backend w) (make_call cfg rt temperature max_tokens tools (objs w ! ctx)) =
          ((chunks, failure), b)"
    by (metis surj_pair)
  show ?thesis
  proof (cases failure)
    case (Some e)
    with c r show ?thesis by (auto simp: one_round_failed)
  next
    case None
    obtain acc sevs where a: "consume_stream chunks no_acc = (acc, sevs)" by (metis surj_pair)
    from one_round_completed [OF v c [unfolded None] a r] show ?thesis by blast
  qed
qed

lemma rounds_calls:
  "ctx < length (objs w) \<Longrightarrow>
   rounds n cfg rt client temperature max_tokens tools ctx w = (evs, r, w') \<Longrightarrow>
   \<exists>new. chat_calls w' = chat_calls w @ new \<and> length new \<le> n \<and>
     map c_tools new =
       replicate (length new) (case tools of None \<Rightarrow> TOOLS cfg rt | Some ts \<Rightarrow> ts)"
proof (induction n arbitrary: w evs r w')
  case 0
  then have "chat_calls w' = chat_calls w @ []" by simp
  then show ?case by force
next
  case (Suc n)
  obtain evs1 st w1 where
    o: "one_round cfg rt client temperature max_tokens tools ctx w = (evs1, st, w1)"
    by (metis surj_pair)
  let ?call = "make_call cfg rt temperature max_tokens tools (objs w ! ctx)"
  from one_round_calls [OF Suc.prems(1) o] have c1: "chat_calls w1 = chat_calls w @ [?call]" .
  have one: "length [?call] \<le> Suc n \<and> map c_tools [?call] =
      replicate (length [?call]) (case tools of None \<Rightarrow> TOOLS cfg rt | Some ts \<Rightarrow> ts)"
    by (simp add: c_tools_make_call)
  show ?case
  proof (cases st)
    case Continue
    obtain evs2 r2 w2 where
      rec: "rounds n cfg rt client temperature max_tokens tools ctx w1 = (evs2, r2, w2)"
      by (metis surj_pair)
    with Suc.prems(2) o Continue have "w' = w2" by simp
    from one_round_frame [OF Suc.prems(1) o] Suc.prems(1) have v1: "ctx < length (objs w1)"
      by auto
    from Suc.IH [OF v1 rec] obtain new where
      n: "chat_calls w2 = chat_calls w1 @ new" "length new \<le> n"
         "map c_tools new =
            replicate (length new) (case tools of None \<Rightarrow> TOOLS cfg rt | Some ts \<Rightarrow> ts)"
      by blast
    have "chat_calls w2 = chat_calls w @ (?call # new)" using n(1) c1 by simp
    moreover have "length (?call # new) \<le> Suc n" using n(2) by simp
    moreover have "map c_tools (?call # new) =
        replicate (length (?call # new)) (case tools of None \<Rightarrow> TOOLS cfg rt | Some ts \<Rightarrow> ts)"
      using n(3) by (simp add: c_tools_make_call)
    ultimately show ?thesis using \<open>w' = w2\<close> by blast
  next
    case Return
    with Suc.prems(2) o have "w' = w1" by simp
    with c1 one show ?thesis by blast
  next
    case (Raise e)
    with Suc.prems(2) o have "w' = w1" by simp
    with c1 one show ?thesis by blast
  qed
qed

lemma streaming_loop_calls:
  assumes v: "conversation < length (objs w)"
    and r: "streaming_loop cfg rt client conversation temperature max_tokens tools w = (evs, r, w')"
  shows "\<exists>new. chat_calls w' = chat_calls w @ new \<and> length new \<le> MAX_TOOL_ROUNDS cfg \<and>
     map c_tools new =
       replicate (length new) (case tools of None \<Rightarrow> TOOLS cfg rt | Some ts \<Rightarrow> ts)"
proof -
  define w0 where "w0 = w\<lparr>objs := objs w @ [objs w ! conversation]\<rparr>"
  from r have rr: "rounds (MAX_TOOL_ROUNDS cfg) cfg rt client temperature max_tokens tools
      (length (objs w)) w0 = (evs, r, w')"
    by (simp add: streaming_loop_def list_copy_def new_list_def w0_def)
  have v0: "length (objs w) < length (objs w0)" by (simp add: w0_def)
  from rounds_calls [OF v0 rr] show ?thesis by (simp add: w0_def)
qed

lemma new_list_facts:
  "new_list xs w = (r, w0) \<Longrightarrow>
     r = length (objs w) \<and> objs w0 = objs w @ [xs] \<and> chat_calls w0 = chat_calls w \<and>
     backend w0 = backend w \<and> memory w0 = memory w"
  by (auto simp: new_list_def)

lemma python_only_tools: "PYTHON_ONLY_TOOLS cfg rt = [python_exec_schema]"
  by (simp add: PYTHON_ONLY_TOOLS_def TOOLS_def schema_name_def python_exec_schema_def
      memory_tool_schema_def dict_get_def ustr_eq_iff)

lemma fresh_loop_calls:
  assumes n: "new_list xs w = (ctx, w0)"
    and r: "streaming_loop cfg rt client ctx temperature max_tokens
              (Some (PYTHON_ONLY_TOOLS cfg rt)) w0 = (evs, r, w1)"
  shows "\<exists>new. chat_calls w1 = chat_calls w @ new \<and>
           map c_tools new = replicate (length new) [python_exec_schema]"
proof -
  from new_list_facts [OF n] have "ctx < length (objs w0)" "chat_calls w0 = chat_calls w"
    by simp_all
  with streaming_loop_calls [OF _ r] show ?thesis by (auto simp: python_only_tools)
qed

lemma run_members_calls:
  "run_members cfg rt client outgoing temperature max_tokens members answers w =
     (out, r, answers', w') \<Longrightarrow>
   \<exists>new. chat_calls w' = chat_calls w @ new \<and>
     map c_tools new = replicate (length new) [python_exec_schema]"
proof (induction members arbitrary: answers w out r answers' w')
  case Nil
  then have "chat_calls w' = chat_calls w @ []" by simp
  then show ?case by force
next
  case (Cons member rest)
  obtain ctx w0 where n: "new_list (system_msg (p_system_prompt member) # outgoing) w = (ctx, w0)"
    by (metis surj_pair)
  obtain evs r1 w1 where l: "streaming_loop cfg rt client ctx temperature max_tokens
      (Some (PYTHON_ONLY_TOOLS cfg rt)) w0 = (evs, r1, w1)" by (metis surj_pair)
  from fresh_loop_calls [OF n l] obtain new1 where
    c1: "chat_calls w1 = chat_calls w @ new1"
        "map c_tools new1 = replicate (length new1) [python_exec_schema]" by blast
  show ?case
  proof (cases r1)
    case (Some e)
    with Cons.prems n l have "w' = w1" by (simp add: Let_def)
    with c1 show ?thesis by blast
  next
    case None
    obtain out2 r2 a2 w2 where rec: "run_members cfg rt client outgoing temperature max_tokens rest
        (AList.update (p_id member) (content_text evs) answers) w1 = (out2, r2, a2, w2)"
      by (metis surj_pair)
    with Cons.prems n l None have "w' = w2" by (simp add: Let_def)
    from Cons.IH [OF rec] obtain new2 where
      c2: "chat_calls w2 = chat_calls w1 @ new2"
          "map c_tools new2 = replicate (length new2) [python_exec_schema]" by blast
    have "chat_calls w2 = chat_calls w @ (new1 @ new2)" using c1(1) c2(1) by simp
    moreover have "map c_tools (new1 @ new2) = replicate (length (new1 @ new2)) [python_exec_schema]"
      using c1(2) c2(2) by (simp add: replicate_add)
    ultimately show ?thesis using \<open>w' = w2\<close> by blast
  qed
qed


lemma chat_calls_logged:
  "\<exists>new. chat_calls (snd (chat cfg rt client request w)) = chat_calls w @ new \<and>
     map c_tools new = replicate (length new) [python_exec_schema]"
proof -
  obtain outgoing w0 where n: "new_list (outgoing_of request) w = (outgoing, w0)"
    by (metis surj_pair)
  obtain evs r w1 where l: "streaming_loop cfg rt client outgoing (r_temperature request)
      (r_max_tokens request) (Some (PYTHON_ONLY_TOOLS cfg rt)) w0 = (evs, r, w1)"
    by (metis surj_pair)
  from n l have "snd (chat cfg rt client request w) = w1"
    by (simp add: chat_def split: option.splits)
  with fresh_loop_calls [OF n l] show ?thesis by simp
qed

lemma team_calls_logged:
  "\<exists>new. chat_calls (snd (chat_team cfg rt client request w)) = chat_calls w @ new \<and>
     map c_tools new = replicate (length new) [python_exec_schema]"
proof -
  obtain out r answers w1 where m: "run_members cfg rt client (outgoing_of request)
      (r_temperature request) (r_max_tokens request) (TEAM_MEMBERS cfg) [] w = (out, r, answers, w1)"
    by (metis surj_pair)
  from run_members_calls [OF m] obtain new1 where
    c1: "chat_calls w1 = chat_calls w @ new1"
        "map c_tools new1 = replicate (length new1) [python_exec_schema]" by blast
  show ?thesis
  proof (cases "r = None \<and> (\<exists>q. original_question (outgoing_of request) = Inr q)")
    case False
    with m have "snd (chat_team cfg rt client request w) = w1"
      by (auto simp: chat_team_def team_generate_def split: option.splits sum.splits)
    with c1 show ?thesis by auto
  next
    case True
    then obtain q where q: "original_question (outgoing_of request) = Inr q" and r: "r = None"
      by blast
    obtain ctx w2 where n: "new_list
        [system_msg (p_system_prompt (TEAM_LEADER cfg)),
         [(ustr ''role'', Text (ustr ''user'')),
          (ustr ''content'', Text (leader_user_msg cfg q answers))]] w1 = (ctx, w2)"
      by (metis surj_pair)
    obtain evs r3 w3 where l: "streaming_loop cfg rt client ctx (r_temperature request)
        (r_max_tokens request) (Some (PYTHON_ONLY_TOOLS cfg rt)) w2 = (evs, r3, w3)"
      by (metis surj_pair)
    from m q r n l have "snd (chat_team cfg rt client request w) = w3"
      by (simp add: chat_team_def team_generate_def Let_def split: option.splits)
    moreover from fresh_loop_calls [OF n l] obtain new2 where
      c2: "chat_calls w3 = chat_calls w1 @ new2"
          "map c_tools new2 = replicate (length new2) [python_exec_schema]" by blast
    have "chat_calls w3 = chat_calls w @ (new1 @ new2)" using c1(1) c2(1) by simp
    moreover have "map c_tools (new1 @ new2) = replicate (length (new1 @ new2)) [python_exec_schema]"
      using c1(2) c2(2) by (simp add: replicate_add)
    ultimately show ?thesis by metis
  qed
qed

text \<open>
  Claim C3, as amended. \<open>PYTHON_ONLY_TOOLS\<close> is the registry without \<^verbatim>\<open>memory_tool\<close>, and it
  is what every endpoint passes: each call to the model made for the chat endpoint (in
  both of its modes), for a team member or for the leader offers the one schema of
  \<^verbatim>\<open>python_exec\<close>.
\<close>

theorem every_endpoint_offers_python_exec_only:
  "PYTHON_ONLY_TOOLS cfg rt = [python_exec_schema] \<and>
   memory_tool_schema cfg rt \<notin> set (PYTHON_ONLY_TOOLS cfg rt) \<and>
   (\<exists>new. chat_calls (snd (chat cfg rt client request w)) = chat_calls w @ new \<and>
      map c_tools new = replicate (length new) [python_exec_schema]) \<and>
   (\<exists>new. chat_calls (snd (chat_team cfg rt client request w)) = chat_calls w @ new \<and>
      map c_tools new = replicate (length new) [python_exec_schema])"
proof -
  have "memory_tool_schema cfg rt \<noteq> python_exec_schema"
    by (simp add: memory_tool_schema_def python_exec_schema_def ustr_eq_iff)
  then show ?thesis
    using chat_calls_logged [of cfg rt client request w]
      team_calls_logged [of cfg rt client request w]
    by (simp add: python_only_tools)
qed

lemma rounds_2: "rounds 2 = rounds (Suc (Suc 0))"
  by (simp add: numeral_2_eq_2)

text \<open>
  Claim C3 as stated fails for the chat endpoint: the one call it makes for a request
  (with a model that streams nothing) offers \<^verbatim>\<open>python_exec\<close> alone, which is not the full
  registry.
\<close>

theorem chat_offers_no_memory_tool:
  "map c_tools (chat_calls (snd (chat example_config example_runtime silent_client hi_request
      empty_world))) = [[python_exec_schema]] \<and>
   [python_exec_schema] \<noteq> TOOLS example_config example_runtime"
  by (simp add: chat_def new_list_def empty_world_def streaming_loop_def list_copy_def
      example_config_def rounds_2 one_round_def silent_client_def append_assistant_def
      assistant_msg_def no_acc_def Let_def strip_def make_call_def python_only_tools TOOLS_def)

subsection \<open>The round limit\<close>

lemma on_chunk_deltas: "on_chunk c acc = (acc', evs) \<Longrightarrow> list_all is_delta evs"
  by (auto simp: on_chunk_def Let_def split: option.splits if_splits)

lemma consume_stream_deltas:
  "consume_stream chunks acc = (acc', evs) \<Longrightarrow> list_all is_delta evs"
proof (induction chunks arbitrary: acc acc' evs)
  case Nil
  then show ?case by simp
next
  case (Cons c cs)
  obtain acc1 evs1 where o: "on_chunk c acc = (acc1, evs1)" by (metis surj_pair)
  obtain acc2 evs2 where r: "consume_stream cs acc1 = (acc2, evs2)" by (metis surj_pair)
  from Cons.prems o r have "evs = evs1 @ evs2" by simp
  with on_chunk_deltas [OF o] Cons.IH [OF r] show ?case by simp
qed

lemma run_tool_calls_return:
  "list_all (returns cfg rt) tcs \<Longrightarrow>
   \<exists>tevs w'. run_tool_calls cfg rt ctx tcs w = (tevs, None, w') \<and> tool_pairs tevs \<and>
      length tevs = 2 * length tcs"
proof (induction tcs arbitrary: w)
  case Nil
  then show ?case by simp
next
  case (Cons tc tcs)
  from Cons.prems have "returns cfg rt tc" by simp
  then obtain res f where
    d: "dispatch_tool cfg rt (tool_name_of tc) (fn_arguments (function_of tc)) (memory w) = (Inr res, f)"
    unfolding returns_def by blast
  define w1 where "w1 = list_append ctx (tool_msg rt tc (tool_name_of tc) res) (w\<lparr>memory := f\<rparr>)"
  from Cons.prems have "list_all (returns cfg rt) tcs" by simp
  from Cons.IH [OF this, of w1] obtain tevs w' where
    r: "run_tool_calls cfg rt ctx tcs w1 = (tevs, None, w')" "tool_pairs tevs"
       "length tevs = 2 * length tcs" by blast
  with d show ?case by (simp add: Let_def w1_def)
qed

lemma round_events_append:
  assumes "list_all is_delta deltas" "tevs \<noteq> []" "tool_pairs tevs"
  shows "round_events (deltas @ tevs)"
proof -
  from assms(2,3) obtain tool args rest where t: "tevs = Tool_request tool args # rest"
    by (cases tevs rule: tool_pairs.cases) auto
  from assms(1) have "dropWhile is_delta deltas = []"
    by (simp add: list_all_iff)
  with t have "dropWhile is_delta (deltas @ tevs) = tevs"
    by (simp add: dropWhile_append3)
  with assms(2,3) show ?thesis by (simp add: round_events_def)
qed

lemma one_round_continues:
  assumes a: "always_requests_tools cfg rt client" and v: "ctx < length (objs w)"
  shows "\<exists>evs w'. one_round cfg rt client temperature max_tokens tools ctx w = (evs, Continue, w') \<and>
           round_events evs"
proof -
  let ?call = "make_call cfg rt temperature max_tokens tools (objs w ! ctx)"
  obtain chunks b where c: "client (backend w) ?call = ((chunks, None), b)"
    using a unfolding always_requests_tools_def by (metis prod.collapse)
  obtain acc sevs where s: "consume_stream chunks no_acc = (acc, sevs)" by (metis surj_pair)
  from a c s have t: "collected_tool_calls acc \<noteq> []" "list_all (returns cfg rt) (collected_tool_calls acc)"
    unfolding always_requests_tools_def requested_def by (metis fst_conv)+
  define w2 where "w2 = append_assistant ctx acc
      (w\<lparr>backend := b, chat_calls := chat_calls w @ [?call]\<rparr>)"
  from run_tool_calls_return [OF t(2), of ctx w2] obtain tevs w3 where
    r: "run_tool_calls cfg rt ctx (collected_tool_calls acc) w2 = (tevs, None, w3)"
       "tool_pairs tevs" "length tevs = 2 * length (collected_tool_calls acc)" by blast
  from r(3) t(1) have "tevs \<noteq> []" by auto
  with consume_stream_deltas [OF s] r(2) have "round_events (sevs @ tevs)"
    by (intro round_events_append)
  moreover from c s t(1) r(1)
  have "one_round cfg rt client temperature max_tokens tools ctx w = (sevs @ tevs, Continue, w3)"
    by (simp add: one_round_def Let_def w2_def)
  ultimately show ?thesis by blast
qed

lemma rounds_reach_limit:
  assumes a: "always_requests_tools cfg rt client"
  shows "ctx < length (objs w) \<Longrightarrow>
    \<exists>rs w'. rounds n cfg rt client temperature max_tokens tools ctx w =
               (concat rs @ [Content limit_message], None, w') \<and>
            length rs = n \<and> list_all round_events rs \<and>
            length (chat_calls w') = length (chat_calls w) + n"
proof (induction n arbitrary: w)
  case 0
  have "rounds 0 cfg rt client temperature max_tokens tools ctx w =
      (concat [] @ [Content limit_message], None, w)" by simp
  then show ?case by force
next
  case (Suc n)
  from one_round_continues [OF a Suc.prems] obtain evs1 w1 where
    o: "one_round cfg rt client temperature max_tokens tools ctx w = (evs1, Continue, w1)"
       "round_events evs1" by blast
  from one_round_frame [OF Suc.prems o(1)] Suc.prems have v1: "ctx < length (objs w1)" by auto
  from one_round_calls [OF Suc.prems o(1)] have c1: "length (chat_calls w1) = length (chat_calls w) + 1"
    by simp
  from Suc.IH [OF v1] obtain rs w' where
    r: "rounds n cfg rt client temperature max_tokens tools ctx w1 =
          (concat rs @ [Content limit_message], None, w')"
       "length rs = n" "list_all round_events rs"
       "length (chat_calls w') = length (chat_calls w1) + n" by blast
  from o(1) r(1) have "rounds (Suc n) cfg rt client temperature max_tokens tools ctx w =
      (concat (evs1 # rs) @ [Content limit_message], None, w')" by simp
  moreover from r(2) have "length (evs1 # rs) = Suc n" by simp
  moreover from o(2) r(3) have "list_all round_events (evs1 # rs)" by simp
  moreover from r(4) c1 have "length (chat_calls w') = length (chat_calls w) + Suc n" by simp
  ultimately show ?case by blast
qed

lemma streaming_loop_reaches_limit:
  assumes a: "always_requests_tools cfg rt client" and v: "conversation < length (objs w)"
  shows "\<exists>rs w'. streaming_loop cfg rt client conversation temperature max_tokens tools w =
               (concat rs @ [Content limit_message], None, w') \<and>
            length rs = MAX_TOOL_ROUNDS cfg \<and> list_all round_events rs \<and>
            length (chat_calls w') = length (chat_calls w) + MAX_TOOL_ROUNDS cfg"
proof -
  define w0 where "w0 = w\<lparr>objs := objs w @ [objs w ! conversation]\<rparr>"
  have v0: "length (objs w) < length (objs w0)" by (simp add: w0_def)
  from rounds_reach_limit [OF a v0, of "MAX_TOOL_ROUNDS cfg" temperature max_tokens tools]
  show ?thesis by (simp add: streaming_loop_def list_copy_def new_list_def w0_def)
qed

text \<open>The stub that always asks for an unknown tool is such a model.\<close>

lemma noop_always_requests_tools: "always_requests_tools cfg rt noop_client"
  by (simp add: always_requests_tools_def requested_def returns_def noop_client_def on_chunk_def
      no_acc_def Let_def function_of_def tool_name_of_def dispatch_tool_def ustr_eq_iff)

lemma run_memory_tool_number:
  "run_memory_tool cfg rt (PyInt 5) f =
     (Inl (TypeError (ustr ''object of type 'int' has no len()'')), f)"
  by (simp add: run_memory_tool_def)

text \<open>
  Claim C1 does not hold of the code, although the loop itself does what the claim says
  (\<open>streaming_loop_reaches_limit\<close>, for every model whose tool calls return). A model that
  asks \<^verbatim>\<open>memory_tool\<close> to store the number 5 requests a tool call on every invocation; with
  a limit of two rounds the loop calls it once, emits the request of the first round and
  ends in the \<^verbatim>\<open>TypeError\<close> that \<open>dispatch_tool\<close> raises: no result event, no second
  round, no round-limit message.
\<close>

theorem streaming_loop_aborts_when_tool_raises:
  "MAX_TOOL_ROUNDS example_config = 2 \<and>
   fst (streaming_loop example_config example_runtime memory_int_client 0 0.7 100 None hi_world) =
     [Tool_request (ustr ''memory_tool'') (PyDict [(ustr ''content'', PyInt 5)])] \<and>
   fst (snd (streaming_loop example_config example_runtime memory_int_client 0 0.7 100 None hi_world)) =
     Some (TypeError (ustr ''object of type 'int' has no len()'')) \<and>
   length (chat_calls (snd (snd
     (streaming_loop example_config example_runtime memory_int_client 0 0.7 100 None hi_world)))) = 1"
  by (simp add: streaming_loop_def list_copy_def new_list_def hi_world_def empty_world_def
      example_config_def rounds_2 one_round_def memory_int_client_def on_chunk_def no_acc_def
      Let_def function_of_def tool_name_of_def dispatch_tool_def normalize_tool_arguments_def
      dict_get_def ustr_eq_iff run_memory_tool_number append_assistant_rest)

section \<open>Properties of the team endpoint\<close>

lemma loop_run_fresh:
  assumes "new_list xs w = (ctx, w0)"
    and "streaming_loop cfg rt client ctx temperature max_tokens
           (Some (PYTHON_ONLY_TOOLS cfg rt)) w0 = (evs, None, w1)"
  shows "loop_run cfg rt client temperature max_tokens xs evs"
proof -
  from new_list_facts [OF assms(1)] have "ctx < length (objs w0)" "objs w0 ! ctx = xs"
    by simp_all
  with assms(2) show ?thesis unfolding loop_run_def by blast
qed

lemma dom_map_of_update:
  "dom (map_of (AList.update k v al)) = insert k (dom (map_of al))"
  by (simp add: dom_map_of_conv_image_fst AList.dom_update)

lemma run_members_answers:
  "run_members cfg rt client outgoing temperature max_tokens members answers w =
     (out, None, answers', w') \<Longrightarrow>
   dom (map_of answers') = dom (map_of answers) \<union> p_id ` set members"
proof (induction members arbitrary: answers w out answers' w')
  case Nil
  then show ?case by simp
next
  case (Cons member rest)
  obtain ctx w0 where n: "new_list (system_msg (p_system_prompt member) # outgoing) w = (ctx, w0)"
    by (metis surj_pair)
  obtain evs r1 w1 where l: "streaming_loop cfg rt client ctx temperature max_tokens
      (Some (PYTHON_ONLY_TOOLS cfg rt)) w0 = (evs, r1, w1)" by (metis surj_pair)
  obtain out2 r2 a2 w2 where rec: "run_members cfg rt client outgoing temperature max_tokens rest
      (AList.update (p_id member) (content_text evs) answers) w1 = (out2, r2, a2, w2)"
    by (metis surj_pair)
  from Cons.prems n l rec have r1: "r1 = None"
    by (cases r1) (simp_all add: Let_def)
  with Cons.prems n l rec have e: "r2 = None" "answers' = a2"
    by (simp_all add: Let_def)
  from Cons.IH [OF rec [unfolded e(1)]] e(2) show ?case
    by (simp add: dom_map_of_update)
qed

lemma run_members_blocks:
  "run_members cfg rt client outgoing temperature max_tokens members answers w =
     (out, None, answers', w') \<Longrightarrow>
   \<exists>runs. list_all2
       (\<lambda>m evs. loop_run cfg rt client temperature max_tokens
          (system_msg (p_system_prompt m) # outgoing) evs) members runs \<and>
     out = concat (map2 (member_block rt) members runs)"
proof (induction members arbitrary: answers w out answers' w')
  case Nil
  then show ?case by simp
next
  case (Cons member rest)
  obtain ctx w0 where n: "new_list (system_msg (p_system_prompt member) # outgoing) w = (ctx, w0)"
    by (metis surj_pair)
  obtain evs r1 w1 where l: "streaming_loop cfg rt client ctx temperature max_tokens
      (Some (PYTHON_ONLY_TOOLS cfg rt)) w0 = (evs, r1, w1)" by (metis surj_pair)
  obtain out2 r2 a2 w2 where rec: "run_members cfg rt client outgoing temperature max_tokens rest
      (AList.update (p_id member) (content_text evs) answers) w1 = (out2, r2, a2, w2)"
    by (metis surj_pair)
  from Cons.prems n l rec have r1: "r1 = None"
    by (cases r1) (simp_all add: Let_def)
  with Cons.prems n l rec have e: "r2 = None" "answers' = a2" "w' = w2"
      "out = member_start rt member # forward rt evs @ [member_end rt member] @ out2"
    by (simp_all add: Let_def)
  from Cons.IH [OF rec [unfolded e(1)]] obtain runs where
    ih: "list_all2 (\<lambda>m evs. loop_run cfg rt client temperature max_tokens
          (system_msg (p_system_prompt m) # outgoing) evs) rest runs"
        "out2 = concat (map2 (member_block rt) rest runs)" by blast
  from loop_run_fresh [OF n l [unfolded r1]] ih(1)
  have "list_all2 (\<lambda>m evs. loop_run cfg rt client temperature max_tokens
          (system_msg (p_system_prompt m) # outgoing) evs) (member # rest) (evs # runs)" by simp
  moreover from e(4) ih(2) have "out = concat (map2 (member_block rt) (member # rest) (evs # runs))"
    by (simp add: member_block_def)
  ultimately show ?case by blast
qed


lemma original_question_outgoing:
  "original_question (outgoing_of request) =
     Inr (if r_messages request = [] then [] else m_content (last (r_messages request)))"
  by (simp add: original_question_def outgoing_of_def last_map ustr_eq_iff)

text \<open>
  Claim C9, as amended. When no loop of the request ends in an exception, the stream is:
  for each configured member in order, its start frame, the forwarded events of its run
  of the loop, its end frame; then the leader's start frame, the forwarded events of the
  leader's run, the leader's end frame; then \<^verbatim>\<open>[DONE]\<close>. This holds for any number of
  members, three among them.
\<close>

theorem team_frames_in_order:
  assumes "fst (snd (team_generate cfg rt client request w)) = None"
  shows "\<exists>runs leader_evs answers question.
     list_all2 (\<lambda>m evs. loop_run cfg rt client (r_temperature request) (r_max_tokens request)
        (system_msg (p_system_prompt m) # outgoing_of request) evs) (TEAM_MEMBERS cfg) runs \<and>
     loop_run cfg rt client (r_temperature request) (r_max_tokens request)
        [system_msg (p_system_prompt (TEAM_LEADER cfg)),
         [(ustr ''role'', Text (ustr ''user'')),
          (ustr ''content'', Text (leader_user_msg cfg question answers))]] leader_evs \<and>
     fst (chat_team cfg rt client request w) =
       concat (map2 (member_block rt) (TEAM_MEMBERS cfg) runs) @
       leader_start rt (TEAM_LEADER cfg) # forward rt leader_evs @
       [leader_end rt (TEAM_LEADER cfg), done_sse]"
proof -
  obtain out r answers w1 where m: "run_members cfg rt client (outgoing_of request)
      (r_temperature request) (r_max_tokens request) (TEAM_MEMBERS cfg) [] w = (out, r, answers, w1)"
    by (metis surj_pair)
  let ?q = "if r_messages request = [] then [] else m_content (last (r_messages request))"
  let ?msgs = "[system_msg (p_system_prompt (TEAM_LEADER cfg)),
         [(ustr ''role'', Text (ustr ''user'')),
          (ustr ''content'', Text (leader_user_msg cfg ?q answers))]]"
  obtain ctx w2 where n: "new_list ?msgs w1 = (ctx, w2)" by (metis surj_pair)
  obtain evs r3 w3 where l: "streaming_loop cfg rt client ctx (r_temperature request)
      (r_max_tokens request) (Some (PYTHON_ONLY_TOOLS cfg rt)) w2 = (evs, r3, w3)"
    by (metis surj_pair)
  from assms m have r: "r = None"
    by (cases r) (simp_all add: team_generate_def)
  with assms m n l have r3: "r3 = None"
    by (cases r3) (simp_all add: team_generate_def original_question_outgoing Let_def)
  from m r n l r3 have out: "fst (chat_team cfg rt client request w) =
      out @ leader_start rt (TEAM_LEADER cfg) # forward rt evs @
        [leader_end rt (TEAM_LEADER cfg), done_sse]"
    by (simp add: chat_team_def team_generate_def original_question_outgoing Let_def)
  from run_members_blocks [OF m [unfolded r]] obtain runs where
    b: "list_all2 (\<lambda>m evs. loop_run cfg rt client (r_temperature request) (r_max_tokens request)
          (system_msg (p_system_prompt m) # outgoing_of request) evs) (TEAM_MEMBERS cfg) runs"
       "out = concat (map2 (member_block rt) (TEAM_MEMBERS cfg) runs)" by blast
  from loop_run_fresh [OF n l [unfolded r3]] b out show ?thesis by blast
qed

lemma loop_silent:
  "streaming_loop example_config example_runtime silent_client ctx temperature max_tokens tools w =
     ([], None,
      w\<lparr>objs := objs w @ [objs w ! ctx],
        chat_calls := chat_calls w @
          [make_call example_config example_runtime temperature max_tokens tools (objs w ! ctx)]\<rparr>)"
  by (simp add: streaming_loop_def list_copy_def new_list_def example_config_def rounds_2
      one_round_def silent_client_def no_acc_def append_assistant_def assistant_msg_def Let_def
      strip_Nil)

lemma loop_unreachable:
  "streaming_loop example_config example_runtime unreachable_client ctx temperature max_tokens tools w =
     ([], Some (Exception (ustr ''connection refused'')),
      w\<lparr>objs := objs w @ [objs w ! ctx],
        chat_calls := chat_calls w @
          [make_call example_config example_runtime temperature max_tokens tools (objs w ! ctx)]\<rparr>)"
  by (simp add: streaming_loop_def list_copy_def new_list_def example_config_def rounds_2
      one_round_def unreachable_client_def no_acc_def Let_def)

lemma example_team:
  "TEAM_MEMBERS example_config = [rex, nova, vera]" "TEAM_LEADER example_config = sage"
  by (simp_all add: example_config_def)

lemma loop_answering:
  "fst (snd (streaming_loop example_config example_runtime answering_client ctx temperature
      max_tokens tools w)) = None"
  by (simp add: streaming_loop_def list_copy_def new_list_def example_config_def rounds_2
      one_round_def answering_client_def no_acc_def on_chunk_def Let_def ustr_Nil_iff
      split: prod.splits)

lemma loop_answering_returns:
  "streaming_loop example_config example_runtime answering_client ctx temperature
      max_tokens tools w = (evs, r, w') \<Longrightarrow> r = None"
  using loop_answering [of ctx temperature max_tokens tools w] by simp

lemma run_members_answering:
  "run_members example_config example_runtime answering_client outgoing temperature
      max_tokens members answers w = (out, r, answers', w') \<Longrightarrow> r = None"
proof (induction members arbitrary: answers w out r answers' w')
  case Nil
  then show ?case by simp
next
  case (Cons member rest)
  obtain ctx w0 where n: "new_list (system_msg (p_system_prompt member) # outgoing) w = (ctx, w0)"
    by (metis surj_pair)
  obtain evs r1 w1 where l: "streaming_loop example_config example_runtime answering_client ctx
      temperature max_tokens (Some (PYTHON_ONLY_TOOLS example_config example_runtime)) w0 =
      (evs, r1, w1)" by (metis surj_pair)
  obtain out2 r2 a2 w2 where rec: "run_members example_config example_runtime answering_client
      outgoing temperature max_tokens rest
      (AList.update (p_id member) (content_text evs) answers) w1 = (out2, r2, a2, w2)"
    by (metis surj_pair)
  from loop_answering_returns [OF l] have "r1 = None" .
  with Cons.prems n l rec have "r = r2" by (simp add: Let_def)
  with Cons.IH [OF rec] show ?case by simp
qed

theorem team_frames_in_order_witness:
  "\<exists>runs leader_evs answers question.
     list_all2 (\<lambda>m evs. loop_run example_config example_runtime answering_client
        (r_temperature hi_request) (r_max_tokens hi_request)
        (system_msg (p_system_prompt m) # outgoing_of hi_request) evs)
        (TEAM_MEMBERS example_config) runs \<and>
     loop_run example_config example_runtime answering_client
        (r_temperature hi_request) (r_max_tokens hi_request)
        [system_msg (p_system_prompt (TEAM_LEADER example_config)),
         [(ustr ''role'', Text (ustr ''user'')),
          (ustr ''content'', Text (leader_user_msg example_config question answers))]] leader_evs \<and>
     fst (chat_team example_config example_runtime answering_client hi_request empty_world) =
       concat (map2 (member_block example_runtime) (TEAM_MEMBERS example_config) runs) @
       leader_start example_runtime (TEAM_LEADER example_config) #
       forward example_runtime leader_evs @
       [leader_end example_runtime (TEAM_LEADER example_config), done_sse]"
proof (rule team_frames_in_order)
  obtain out r answers w1 where m: "run_members example_config example_runtime answering_client
      (outgoing_of hi_request) (r_temperature hi_request) (r_max_tokens hi_request)
      (TEAM_MEMBERS example_config) [] empty_world = (out, r, answers, w1)"
    by (metis surj_pair)
  from run_members_answering [OF m] have r: "r = None" .
  let ?msgs = "[system_msg (p_system_prompt (TEAM_LEADER example_config)),
         [(ustr ''role'', Text (ustr ''user'')),
          (ustr ''content'', Text (leader_user_msg example_config
             (if r_messages hi_request = [] then [] else m_content (last (r_messages hi_request)))
             answers))]]"
  obtain ctx w2 where n: "new_list ?msgs w1 = (ctx, w2)" by (metis surj_pair)
  obtain evs r3 w3 where l: "streaming_loop example_config example_runtime answering_client ctx
      (r_temperature hi_request) (r_max_tokens hi_request)
      (Some (PYTHON_ONLY_TOOLS example_config example_runtime)) w2 = (evs, r3, w3)"
    by (metis surj_pair)
  from loop_answering_returns [OF l] have "r3 = None" .
  with m r n l show "fst (snd (team_generate example_config example_runtime answering_client
      hi_request empty_world)) = None"
    by (simp add: team_generate_def Let_def original_question_outgoing)
qed

text \<open>
  Claim C9 as stated fails when a loop raises: with an unreachable backend the stream is
  the first member's start frame and the error line.
\<close>

theorem team_stream_cut_short:
  "fst (chat_team example_config example_runtime unreachable_client hi_request empty_world) =
     [member_start example_runtime rex,
      error_sse example_runtime (Exception (ustr ''connection refused''))]"
  by (simp add: chat_team_def team_generate_def Let_def loop_unreachable new_list_def forward_def
      example_team)

text \<open>
  Every member that ran has an entry in \<^verbatim>\<open>member_answers\<close>, so its block holds its
  accumulated content text and the placeholder of \<^verbatim>\<open>member_answers.get\<close> is never used.
\<close>

lemma answers_cover_members:
  assumes "run_members cfg rt client outgoing temperature max_tokens members [] w =
             (out, None, answers, w')"
    and "m \<in> set members"
  shows "\<exists>a. map_of answers (p_id m) = Some a \<and>
           member_section answers m =
             ustr ''<'' @ p_id m @ ustr ''>\<newline>'' @ a @ ustr ''\<newline></'' @ p_id m @ ustr ''>''"
proof -
  from run_members_answers [OF assms(1)] assms(2) have "p_id m \<in> dom (map_of answers)" by simp
  then obtain a where "map_of answers (p_id m) = Some a" by blast
  then show ?thesis by (simp add: member_section_def)
qed

lemma members_silent:
  "run_members example_config example_runtime silent_client outgoing temperature max_tokens
     [rex, nova, vera] [] w =
   ([member_start example_runtime rex, member_end example_runtime rex,
     member_start example_runtime nova, member_end example_runtime nova,
     member_start example_runtime vera, member_end example_runtime vera],
    None,
    [(ustr ''rex'', []), (ustr ''nova'', []), (ustr ''vera'', [])],
    w\<lparr>objs := objs w @
         [system_msg (ustr ''You are Rex.'') # outgoing, system_msg (ustr ''You are Rex.'') # outgoing,
          system_msg (ustr ''You are Nova.'') # outgoing, system_msg (ustr ''You are Nova.'') # outgoing,
          system_msg (ustr ''You are Vera.'') # outgoing, system_msg (ustr ''You are Vera.'') # outgoing],
       chat_calls := chat_calls w @
         [make_call example_config example_runtime temperature max_tokens
            (Some (PYTHON_ONLY_TOOLS example_config example_runtime))
            (system_msg (ustr ''You are Rex.'') # outgoing),
          make_call example_config example_runtime temperature max_tokens
            (Some (PYTHON_ONLY_TOOLS example_config example_runtime))
            (system_msg (ustr ''You are Nova.'') # outgoing),
          make_call example_config example_runtime temperature max_tokens
            (Some (PYTHON_ONLY_TOOLS example_config example_runtime))
            (system_msg (ustr ''You are Vera.'') # outgoing)]\<rparr>)"
  by (simp add: Let_def loop_silent new_list_def forward_def nth_append
      rex_def nova_def vera_def ustr_eq_iff)

text \<open>
  Claim C5 does not hold of the code in its last part. With a model that streams nothing,
  no member produces content; the leader's call then carries a user message with the
  question and one block per member, and each block is empty: the placeholder is not in
  it.
\<close>

theorem leader_gets_empty_blocks:
  "map c_messages (drop 3 (chat_calls (snd
     (chat_team example_config example_runtime silent_client hi_request empty_world)))) =
   [[system_msg (ustr ''You are Sage.''),
     [(ustr ''role'', Text (ustr ''user'')),
      (ustr ''content'', Text (
         [38382, 39064, 65306] @ ustr ''hi\<newline>\<newline>'' @
         [32972, 26223, 21442, 32771, 65288, 20869, 37096, 20998, 26512, 65292, 20165, 20379,
          21442, 32771, 65289, 65306, 10] @
         ustr ''<rex>\<newline>\<newline></rex>\<newline>\<newline><nova>\<newline>\<newline></nova>\<newline>\<newline><vera>\<newline>\<newline></vera>''))]]]"
proof -
  have q: "original_question (outgoing_of hi_request) = Inr (ustr ''hi'')"
    by (simp add: original_question_outgoing hi_request_def)
  have u: "leader_user_msg example_config (ustr ''hi'')
      [(ustr ''rex'', []), (ustr ''nova'', []), (ustr ''vera'', [])] =
         [38382, 39064, 65306] @ ustr ''hi\<newline>\<newline>'' @
         [32972, 26223, 21442, 32771, 65288, 20869, 37096, 20998, 26512, 65292, 20165, 20379,
          21442, 32771, 65289, 65306, 10] @
         ustr ''<rex>\<newline>\<newline></rex>\<newline>\<newline><nova>\<newline>\<newline></nova>\<newline>\<newline><vera>\<newline>\<newline></vera>''"
    by (simp add: leader_user_msg_def example_team member_section_def rex_def nova_def vera_def
        ustr_eq_iff) (simp add: ustr_def)
  show ?thesis
    by (simp add: chat_team_def team_generate_def Let_def example_team members_silent q u
        loop_silent new_list_def nth_append empty_world_def make_call_def sage_def
        del: run_members.simps)
qed

end
